theory Spec2Isabelle
  imports Complex_Main "HOL-Library.Multiset" "HOL-Library.Log_Nat"
begin

section \<open>Data model\<close>

text \<open>
  The backend keeps two MongoDB collections: the leaderboard entries
  (\<^verbatim>\<open>entrySchema\<close> of leaderboardService.js) and the processed Stripe events
  (\<^verbatim>\<open>processedEventSchema\<close> of processedEvent.js). A collection is a list of
  documents in storage order (the order of insertion; documents are never deleted).

  JavaScript numbers are IEEE doubles. An amount is a finite double, held as the rational
  that is its value; sums and quotients of amounts are rounded to the nearest double
  (section \<open>Numbers\<close>). A coordinate is what \<^verbatim>\<open>parseFloat\<close> returns: \<^verbatim>\<open>NaN\<close>
  (\<open>None\<close>) or a number of the type \<open>'c\<close>, with \<^verbatim>\<open>parseFloat\<close> a parameter of the
  handler. A \<^verbatim>\<open>Date\<close> is its integer time value. A JavaScript value that may be
  \<^verbatim>\<open>undefined\<close> is an \<open>option\<close>.
\<close>

text \<open>
  A position: its \<^verbatim>\<open>type\<close> and, when it has them, its \<^verbatim>\<open>coordinates\<close>. The
  elements are of the type \<open>'c\<close> in a stored document and of the type \<open>'c option\<close>
  in the object the webhook builds, where an element may be \<^verbatim>\<open>NaN\<close>.
\<close>

record 'c position =
  ptype :: string
  coordinates :: "'c list option"

text \<open>A stored document of the \<^verbatim>\<open>Entry\<close> model.\<close>

record 'c entry =
  name :: string
  amount :: rat
  message :: string
  locationLabel :: string
  position :: "'c position option"
  createdAt :: int
  stripeCustomerID :: string

text \<open>
  The object literal \<^verbatim>\<open>entryData\<close> that the webhook hands to \<^verbatim>\<open>addEntry\<close>. The
  fields read from the Stripe metadata may be missing.
\<close>

record 'c entryData =
  ed_name :: "string option"
  ed_amount :: rat
  ed_stripeCustomerID :: "string option"
  ed_locationLabel :: "string option"
  ed_message :: string
  ed_position :: "'c option position option"

text \<open>The metadata of a checkout session: Stripe metadata values are strings.\<close>

record metadata =
  md_name :: "string option"
  md_stripeCustomerID :: "string option"
  md_locationLabel :: "string option"
  md_message :: "string option"
  md_lat :: "string option"
  md_lng :: "string option"

text \<open>\<^verbatim>\<open>event.data.object\<close>: the checkout session; \<^verbatim>\<open>amount_total\<close> is in cents.\<close>

record session =
  amount_total :: nat
  session_metadata :: metadata

record event =
  event_id :: string
  event_type :: string
  data_object :: session

record 'c db =
  entries :: "'c entry list"
  processedEvents :: "string list"

text \<open>
  What one run of a request handler finds around it: the clock (\<^verbatim>\<open>Date.now\<close>) and,
  for each storage round trip the handler makes, whether that round trip fails: the
  connection is lost, or the server refuses the operation for a reason that the model
  does not hold (the geospatial index on the coordinates, say). The unique indexes are
  held by the model, and what Mongoose checks before the round trip is, too.
\<close>

record env =
  now :: int
  findEventFails :: bool
  findEntryFails :: bool
  saveEntryFails :: bool
  createEntryFails :: bool
  createEventFails :: bool
  findAllFails :: bool

datatype error = StorageError | ValidationError | DuplicateKey

record response =
  status :: nat
  body :: string

section \<open>Numbers\<close>

text \<open>
  The double nearest to a rational, ties to the even significand: 53 bits of
  significand, and the least exponent \<open>-1074\<close> of the subnormal numbers. The model has
  no greatest double: where JavaScript would give \<^verbatim>\<open>Infinity\<close> (from \<open>2 ^ 1024\<close> on)
  the model goes on rounding to 53 bits.
\<close>

text \<open>The nearest integer, ties to the even one.\<close>

definition rne :: "rat \<Rightarrow> int" where
  "rne y = (let f = \<lfloor>y\<rfloor>; d = y - of_int f in
            if d < 1 / 2 then f else if 1 / 2 < d then f + 1 else if even f then f else f + 1)"

text \<open>For a positive \<open>x\<close>, the integer \<open>k\<close> with \<open>2 powi k \<le> x < 2 powi (k + 1)\<close>.\<close>

definition ilog2 :: "rat \<Rightarrow> int" where
  "ilog2 x = (case quotient_of x of (p, q) \<Rightarrow>
     (let k = bitlen p - bitlen q in if x < 2 powi k then k - 1 else k))"

text \<open>The exponent of the last bit of the significand of the double nearest to \<open>x\<close>.\<close>

definition expo :: "rat \<Rightarrow> int" where
  "expo x = max (ilog2 \<bar>x\<bar> - 52) (- 1074)"

definition double :: "rat \<Rightarrow> rat" where
  "double x = (if x = 0 then 0
     else (let u = 2 powi (expo x) in of_int (rne (x / u)) * u))"

text \<open>\<^verbatim>\<open>x + y\<close> and \<^verbatim>\<open>x / y\<close> (for a divisor that is not zero) on doubles.\<close>

definition js_plus :: "rat \<Rightarrow> rat \<Rightarrow> rat" where
  "js_plus x y = double (x + y)"

definition js_over :: "rat \<Rightarrow> rat \<Rightarrow> rat" where
  "js_over x y = double (x / y)"


section \<open>Storage operations\<close>

text \<open>JavaScript truthiness of a value that is a string or \<^verbatim>\<open>undefined\<close>.\<close>

definition truthy :: "string option \<Rightarrow> bool" where
  "truthy v = (case v of None \<Rightarrow> False | Some s \<Rightarrow> s \<noteq> [])"

text \<open>
  \<^verbatim>\<open>required: true\<close> on a String path: Mongoose rejects \<^verbatim>\<open>undefined\<close> and the
  empty string.
\<close>

definition required :: "string option \<Rightarrow> bool" where
  "required v = truthy v"

text \<open>\<^verbatim>\<open>ProcessedEvent.findOne({ eventId: id })\<close>\<close>

definition ProcessedEvent_findOne :: "env \<Rightarrow> string \<Rightarrow> string list \<Rightarrow> error + string option" where
  "ProcessedEvent_findOne v eid ps =
     (if findEventFails v then Inl StorageError else Inr (find (\<lambda>p. p = eid) ps))"

text \<open>
  \<^verbatim>\<open>ProcessedEvent.create({ eventId: id })\<close>: \<^verbatim>\<open>eventId\<close> is required and has a
  unique index.
\<close>

definition ProcessedEvent_create :: "env \<Rightarrow> string \<Rightarrow> string list \<Rightarrow> error + string list" where
  "ProcessedEvent_create v eid ps =
     (if \<not> required (Some eid) then Inl ValidationError
      else if createEventFails v then Inl StorageError
      else if eid \<in> set ps then Inl DuplicateKey
      else Inr (ps @ [eid]))"

text \<open>
  \<^verbatim>\<open>Entry.findOne({ stripeCustomerID: k })\<close>: the first document with that customer.
  No stored document lacks the (required) field, so an \<^verbatim>\<open>undefined\<close> key finds none.
\<close>

definition Entry_findOne :: "env \<Rightarrow> string option \<Rightarrow> 'c entry list \<Rightarrow> error + 'c entry option" where
  "Entry_findOne v k es =
     (if findEntryFails v then Inl StorageError
      else Inr (case k of None \<Rightarrow> None | Some c \<Rightarrow> find (\<lambda>d. stripeCustomerID d = c) es))"

text \<open>
  The cast of a position to the schema: \<^verbatim>\<open>type\<close> is one of \<^verbatim>\<open>enum: ['Point']\<close>,
  \<^verbatim>\<open>coordinates\<close> is \<^verbatim>\<open>[Number]\<close>, and \<^verbatim>\<open>NaN\<close> is not cast to a Number (a
  \<^verbatim>\<open>CastError\<close>, reported as a validation error). Mongoose gives an array path
  that is \<^verbatim>\<open>undefined\<close> the default \<^verbatim>\<open>[]\<close>.
\<close>

definition cast_position :: "'c option position \<Rightarrow> error + 'c position" where
  "cast_position p =
     (if ptype p \<noteq> ''Point'' then Inl ValidationError
      else case coordinates p of
             None \<Rightarrow> Inr \<lparr>ptype = ptype p, coordinates = Some []\<rparr>
           | Some cs \<Rightarrow>
               (case those cs of
                  None \<Rightarrow> Inl ValidationError
                | Some ns \<Rightarrow> Inr \<lparr>ptype = ptype p, coordinates = Some ns\<rparr>))"

text \<open>
  \<^verbatim>\<open>new Entry(entry)\<close> and its validation, at the time \<open>t\<close>: the required paths are
  there and not empty, the position is cast, \<^verbatim>\<open>createdAt\<close> defaults to \<^verbatim>\<open>Date.now\<close>,
  \<^verbatim>\<open>position.type\<close> to \<^verbatim>\<open>'Point'\<close> and \<^verbatim>\<open>position.coordinates\<close>, an array path,
  to \<^verbatim>\<open>[]\<close>: a document made without a position has the position
  \<^verbatim>\<open>{ type: 'Point', coordinates: [] }\<close>.
\<close>

definition Entry_new :: "int \<Rightarrow> 'c entryData \<Rightarrow> error + 'c entry" where
  "Entry_new t e =
     (case (ed_name e, ed_locationLabel e, ed_stripeCustomerID e) of
        (Some n, Some l, Some c) \<Rightarrow>
          if n = [] \<or> l = [] \<or> c = [] then Inl ValidationError
          else (case (case ed_position e of
                        None \<Rightarrow> Inr \<lparr>ptype = ''Point'', coordinates = Some []\<rparr>
                      | Some p \<Rightarrow> cast_position p) of
                  Inl err \<Rightarrow> Inl err
                | Inr p' \<Rightarrow>
                    Inr \<lparr>name = n, amount = ed_amount e, message = ed_message e,
                         locationLabel = l, position = Some p',
                         createdAt = t, stripeCustomerID = c\<rparr>)
      | _ \<Rightarrow> Inl ValidationError)"

text \<open>
  \<^verbatim>\<open>Entry.create(entry)\<close>: the document is validated, then inserted; the unique
  index on \<^verbatim>\<open>stripeCustomerID\<close> is enforced.
\<close>

definition Entry_create :: "env \<Rightarrow> 'c entryData \<Rightarrow> 'c entry list \<Rightarrow> error + 'c entry list" where
  "Entry_create v e es =
     (case Entry_new (now v) e of
        Inl err \<Rightarrow> Inl err
      | Inr d \<Rightarrow>
          if createEntryFails v then Inl StorageError
          else if stripeCustomerID d \<in> stripeCustomerID ` set es then Inl DuplicateKey
          else Inr (es @ [d]))"

text \<open>The first document of customer \<open>c\<close> replaced by \<open>g\<close> of it.\<close>

fun updateOne :: "string \<Rightarrow> ('c entry \<Rightarrow> 'c entry) \<Rightarrow> 'c entry list \<Rightarrow> 'c entry list" where
  "updateOne c g [] = []"
| "updateOne c g (d # ds) = (if stripeCustomerID d = c then g d # ds else d # updateOne c g ds)"

text \<open>
  \<^verbatim>\<open>existing.save()\<close> on a document obtained from \<^verbatim>\<open>findOne\<close>: Mongoose writes the
  modified paths of the in-memory document to the stored one. \<^verbatim>\<open>addEntry\<close> assigns
  \<^verbatim>\<open>amount\<close>, and \<^verbatim>\<open>message\<close> when \<open>msg\<close> holds. The document passed the
  validation when it was created, and the values assigned are a number and a string, so
  the validation before the write passes.
\<close>

definition Entry_save :: "env \<Rightarrow> 'c entry \<Rightarrow> bool \<Rightarrow> 'c entry list \<Rightarrow> error + 'c entry list" where
  "Entry_save v doc msg es =
     (if saveEntryFails v then Inl StorageError
      else Inr (updateOne (stripeCustomerID doc)
                  (\<lambda>d. d\<lparr>amount := amount doc,
                          message := (if msg then message doc else message d)\<rparr>) es))"

section \<open>leaderboardService.addEntry\<close>

text \<open>
  The body of the \<^verbatim>\<open>try\<close> block after \<^verbatim>\<open>await Entry.findOne\<close> has returned
  \<open>existing\<close>: a top-up of the found document, or the creation of a new one.
\<close>

definition addEntry_write :: "env \<Rightarrow> 'c entryData \<Rightarrow> 'c entry option \<Rightarrow> 'c entry list \<Rightarrow> error + 'c entry list" where
  "addEntry_write v e existing es =
     (case existing of
        Some ex \<Rightarrow>
          Entry_save v
            (ex\<lparr>amount := js_plus (amount ex) (ed_amount e),
                message := (if ed_message e \<noteq> [] then ed_message e else message ex)\<rparr>)
            (ed_message e \<noteq> []) es
      | None \<Rightarrow> Entry_create v e es)"

text \<open>The whole \<^verbatim>\<open>try\<close> block.\<close>

definition addEntry_try :: "env \<Rightarrow> 'c entryData \<Rightarrow> 'c entry list \<Rightarrow> error + 'c entry list" where
  "addEntry_try v e es =
     (case Entry_findOne v (ed_stripeCustomerID e) es of
        Inl err \<Rightarrow> Inl err
      | Inr existing \<Rightarrow> addEntry_write v e existing es)"

text \<open>
  \<^verbatim>\<open>addEntry\<close>: the \<^verbatim>\<open>catch\<close> logs the error and returns, so the promise always
  resolves (\<open>Inr\<close>); after an error the collection is as it was.
\<close>

definition addEntry :: "env \<Rightarrow> 'c entryData \<Rightarrow> 'c entry list \<Rightarrow> error + 'c entry list" where
  "addEntry v e es = (case addEntry_try v e es of Inl err \<Rightarrow> Inr es | Inr es' \<Rightarrow> Inr es')"

section \<open>The Stripe webhook\<close>

text \<open>
  The \<^verbatim>\<open>entryData\<close> built from a \<^verbatim>\<open>checkout.session.completed\<close> event.
  \<^verbatim>\<open>amount_total\<close> is the double that the JSON parser makes of the integer.
\<close>

definition entryData_of :: "(string \<Rightarrow> 'c option) \<Rightarrow> event \<Rightarrow> 'c entryData" where
  "entryData_of parseFloat ev =
     (let session = data_object ev; metadata = session_metadata session in
      \<lparr>ed_name = md_name metadata,
       ed_amount = js_over (double (of_nat (amount_total session))) 100,
       ed_stripeCustomerID = md_stripeCustomerID metadata,
       ed_locationLabel = md_locationLabel metadata,
       ed_message = (case md_message metadata of None \<Rightarrow> [] | Some m \<Rightarrow> m),
       ed_position =
         (case (md_lat metadata, md_lng metadata) of
            (Some lat, Some lng) \<Rightarrow>
              if lat \<noteq> [] \<and> lng \<noteq> []
              then Some \<lparr>ptype = ''Point'', coordinates = Some [parseFloat lng, parseFloat lat]\<rparr>
              else None
          | _ \<Rightarrow> None)\<rparr>)"

text \<open>
  \<^verbatim>\<open>app.post('/webhook')\<close>. \<^verbatim>\<open>stripe.webhooks.constructEvent\<close> is the parameter
  \<open>constructEvent\<close>: from the request (raw body and signature header) it gives the
  event, or the message of the error it throws.
\<close>

definition webhook ::
  "('r \<Rightarrow> string + event) \<Rightarrow> (string \<Rightarrow> 'c option) \<Rightarrow> env \<Rightarrow> 'r \<Rightarrow> 'c db \<Rightarrow> response \<times> 'c db" where
  "webhook constructEvent parseFloat v req s =
     (case constructEvent req of
        Inl msg \<Rightarrow> (\<lparr>status = 400, body = ''Webhook Error: '' @ msg\<rparr>, s)
      | Inr ev \<Rightarrow>
          (case ProcessedEvent_findOne v (event_id ev) (processedEvents s) of
             Inl dbErr \<Rightarrow> (\<lparr>status = 500, body = ''Internal Server Error''\<rparr>, s)
           | Inr (Some existing) \<Rightarrow> (\<lparr>status = 200, body = ''Event already processed''\<rparr>, s)
           | Inr None \<Rightarrow>
               (let s1 = (if event_type ev = ''checkout.session.completed''
                          then (case addEntry v (entryData_of parseFloat ev) (entries s) of
                                  Inl serviceErr \<Rightarrow> s
                                | Inr es \<Rightarrow> s\<lparr>entries := es\<rparr>)
                          else s);
                    s2 = (case ProcessedEvent_create v (event_id ev) (processedEvents s1) of
                            Inl err \<Rightarrow> s1
                          | Inr ps \<Rightarrow> s1\<lparr>processedEvents := ps\<rparr>)
                in (\<lparr>status = 200, body = ''Event received''\<rparr>, s2))))"



definition empty_db :: "'c db" where
  "empty_db = \<lparr>entries = [], processedEvents = []\<rparr>"

text \<open>The running total of customer \<open>c\<close>, when the customer has an entry.\<close>

definition totalAmount :: "string \<Rightarrow> 'c entry list \<Rightarrow> rat option" where
  "totalAmount c es = map_option amount (find (\<lambda>d. stripeCustomerID d = c) es)"

section \<open>leaderboardService.getLeaderboard and GET /api/leaderboard\<close>

text \<open>
  \<^verbatim>\<open>Entry.find().sort({ createdAt: -1 })\<close>: all documents, the greatest
  \<^verbatim>\<open>createdAt\<close> first. MongoDB leaves the order of documents with equal keys
  open; the model keeps them in storage order (a stable sort).
\<close>

definition Entry_find_sort_createdAt :: "env \<Rightarrow> 'c entry list \<Rightarrow> error + 'c entry list" where
  "Entry_find_sort_createdAt v es =
     (if findAllFails v then Inl StorageError else Inr (sort_key (\<lambda>d. - createdAt d) es))"

text \<open>\<^verbatim>\<open>xs[i]\<close> of JavaScript: \<^verbatim>\<open>undefined\<close> beyond the end.\<close>

definition index_at :: "'a list \<Rightarrow> nat \<Rightarrow> 'a option" where
  "index_at xs i = (if i < length xs then Some (xs ! i) else None)"

text \<open>An element of the array that \<^verbatim>\<open>getLeaderboard\<close> returns: the entry, and \<^verbatim>\<open>lat\<close>, \<^verbatim>\<open>lng\<close>.\<close>

record 'c row = "'c entry" +
  lat :: "'c option"
  lng :: "'c option"

definition toRow :: "'c entry \<Rightarrow> 'c row" where
  "toRow e =
     entry.extend e
       \<lparr>lat = (case position e of
                 Some p \<Rightarrow> (case coordinates p of Some cs \<Rightarrow> index_at cs 1 | None \<Rightarrow> None)
               | None \<Rightarrow> None),
        lng = (case position e of
                 Some p \<Rightarrow> (case coordinates p of Some cs \<Rightarrow> index_at cs 0 | None \<Rightarrow> None)
               | None \<Rightarrow> None)\<rparr>"

definition getLeaderboard :: "env \<Rightarrow> 'c entry list \<Rightarrow> error + 'c row list" where
  "getLeaderboard v es =
     (case Entry_find_sort_createdAt v es of
        Inl err \<Rightarrow> Inr []
      | Inr sorted_entries \<Rightarrow> Inr (map toRow sorted_entries))"

datatype 'c json = Rows "'c row list" | Message string

text \<open>\<^verbatim>\<open>app.get('/api/leaderboard')\<close>: the status and the JSON body.\<close>

definition api_leaderboard :: "env \<Rightarrow> 'c db \<Rightarrow> nat \<times> 'c json" where
  "api_leaderboard v s =
     (case getLeaderboard v (entries s) of
        Inr list \<Rightarrow> (200, Rows list)
      | Inl err \<Rightarrow> (500, Message ''Error fetching leaderboard''))"

subsection \<open>The earlier leaderboardService: ranking by amount\<close>

text \<open>The earlier \<^verbatim>\<open>entrySchema\<close>, with a link and without location.\<close>

record entry_v1 =
  v1_name :: string
  v1_amount :: rat
  v1_stripeCustomerID :: string
  v1_link :: string
  v1_message :: string

text \<open>\<^verbatim>\<open>Entry.find().sort({ amount: -1 }).lean()\<close>, ties in storage order as above.\<close>

definition Entry_find_sort_amount :: "bool \<Rightarrow> entry_v1 list \<Rightarrow> error + entry_v1 list" where
  "Entry_find_sort_amount fails es =
     (if fails then Inl StorageError else Inr (sort_key (\<lambda>d. - v1_amount d) es))"

definition getLeaderboard_v1 :: "bool \<Rightarrow> entry_v1 list \<Rightarrow> entry_v1 list" where
  "getLeaderboard_v1 fails es =
     (case Entry_find_sort_amount fails es of Inl err \<Rightarrow> [] | Inr sorted_entries \<Rightarrow> sorted_entries)"

section \<open>Two calls of addEntry in flight\<close>

text \<open>
  \<^verbatim>\<open>addEntry\<close> awaits twice: \<^verbatim>\<open>Entry.findOne\<close>, then \<^verbatim>\<open>existing.save\<close> or
  \<^verbatim>\<open>Entry.create\<close>. Between the two another call may run. A call is either about
  to look the customer up, or holds what it found and is about to write, or has returned.
\<close>

datatype 'c call = Calling "'c entryData" | Found "'c entryData" "'c entry option" | Returned

fun call_step :: "env \<Rightarrow> 'c call \<Rightarrow> 'c entry list \<Rightarrow> 'c call \<times> 'c entry list" where
  "call_step v (Calling e) es =
     (case Entry_findOne v (ed_stripeCustomerID e) es of
        Inl err \<Rightarrow> (Returned, es)
      | Inr existing \<Rightarrow> (Found e existing, es))"
| "call_step v (Found e existing) es =
     (case addEntry_write v e existing es of
        Inl err \<Rightarrow> (Returned, es)
      | Inr es' \<Rightarrow> (Returned, es'))"
| "call_step v Returned es = (Returned, es)"

text \<open>
  A schedule says which of two calls makes the next storage round trip
  (\<open>False\<close>: the first, \<open>True\<close>: the second).
\<close>

fun run_calls :: "env \<Rightarrow> bool list \<Rightarrow> 'c call \<times> 'c call \<times> 'c entry list \<Rightarrow> 'c call \<times> 'c call \<times> 'c entry list" where
  "run_calls v [] st = st"
| "run_calls v (False # sch) (p, q, es) =
     (case call_step v p es of (p', es') \<Rightarrow> run_calls v sch (p', q, es'))"
| "run_calls v (True # sch) (p, q, es) =
     (case call_step v q es of (q', es') \<Rightarrow> run_calls v sch (p, q', es'))"

section \<open>Example data\<close>

text \<open>An environment in which no storage round trip fails.\<close>

definition ok_env :: env where
  "ok_env = \<lparr>now = 1000, findEventFails = False, findEntryFails = False,
     saveEntryFails = False, createEntryFails = False, createEventFails = False,
     findAllFails = False\<rparr>"

text \<open>A first payment of customer p1, and a later one with other display data.\<close>

definition ev1 :: event where
  "ev1 = \<lparr>event_id = ''evt_1'', event_type = ''checkout.session.completed'',
     data_object = \<lparr>amount_total = 100000,
       session_metadata = \<lparr>md_name = Some ''Ann'', md_stripeCustomerID = Some ''p1'',
         md_locationLabel = Some ''Paris'', md_message = Some ''hi'',
         md_lat = Some ''48.85'', md_lng = Some ''2.35''\<rparr>\<rparr>\<rparr>"

definition ev2 :: event where
  "ev2 = \<lparr>event_id = ''evt_2'', event_type = ''checkout.session.completed'',
     data_object = \<lparr>amount_total = 50000,
       session_metadata = \<lparr>md_name = Some ''Bob'', md_stripeCustomerID = Some ''p1'',
         md_locationLabel = Some ''Rome'', md_message = Some ''yo'',
         md_lat = Some ''41.90'', md_lng = Some ''12.50''\<rparr>\<rparr>\<rparr>"

text \<open>A third payment of customer p1.\<close>

definition ev4 :: event where
  "ev4 = \<lparr>event_id = ''evt_4'', event_type = ''checkout.session.completed'',
     data_object = \<lparr>amount_total = 30000,
       session_metadata = \<lparr>md_name = Some ''Ann'', md_stripeCustomerID = Some ''p1'',
         md_locationLabel = Some ''Paris'', md_message = None,
         md_lat = None, md_lng = None\<rparr>\<rparr>\<rparr>"

text \<open>A payment of customer p2 that carries no message and no coordinates.\<close>

definition ev3 :: event where
  "ev3 = \<lparr>event_id = ''evt_3'', event_type = ''checkout.session.completed'',
     data_object = \<lparr>amount_total = 200000,
       session_metadata = \<lparr>md_name = Some ''Cy'', md_stripeCustomerID = Some ''p2'',
         md_locationLabel = Some ''Oslo'', md_message = None,
         md_lat = None, md_lng = None\<rparr>\<rparr>\<rparr>"

text \<open>
  A payment of customer p3 without a location label, and one of customer p4 whose
  latitude is not a number.
\<close>

definition ev5 :: event where
  "ev5 = \<lparr>event_id = ''evt_5'', event_type = ''checkout.session.completed'',
     data_object = \<lparr>amount_total = 70000,
       session_metadata = \<lparr>md_name = Some ''Dee'', md_stripeCustomerID = Some ''p3'',
         md_locationLabel = None, md_message = None,
         md_lat = None, md_lng = None\<rparr>\<rparr>\<rparr>"

definition ev6 :: event where
  "ev6 = \<lparr>event_id = ''evt_6'', event_type = ''checkout.session.completed'',
     data_object = \<lparr>amount_total = 70000,
       session_metadata = \<lparr>md_name = Some ''Eve'', md_stripeCustomerID = Some ''p4'',
         md_locationLabel = Some ''Lima'', md_message = None,
         md_lat = Some ''abc'', md_lng = Some ''2.35''\<rparr>\<rparr>\<rparr>"

text \<open>
  A stand-in for \<^verbatim>\<open>parseFloat\<close> on the strings of the examples: \<^verbatim>\<open>NaN\<close> for
  \<^verbatim>\<open>'abc'\<close>, and otherwise the number that the string writes, named by the string.
\<close>

definition parse0 :: "string \<Rightarrow> string option" where
  "parse0 s = (if s = ''abc'' then None else Some s)"


text \<open>The ledger after the first payment.\<close>

definition db1 :: "string db" where
  "db1 = \<lparr>entries = [\<lparr>name = ''Ann'', amount = 1000, message = ''hi'',
       locationLabel = ''Paris'',
       position = Some \<lparr>ptype = ''Point'', coordinates = Some [''2.35'', ''48.85'']\<rparr>,
       createdAt = 1000, stripeCustomerID = ''p1''\<rparr>],
     processedEvents = [''evt_1'']\<rparr>"

text \<open>An entry of the earlier schema, with identity \<open>c\<close> and amount \<open>a\<close>.\<close>

definition payer :: "string \<Rightarrow> rat \<Rightarrow> entry_v1" where
  "payer c a = \<lparr>v1_name = c, v1_amount = a, v1_stripeCustomerID = c, v1_link = [], v1_message = []\<rparr>"

text \<open>A later and smaller entry, of customer p2.\<close>

definition entry_p2 :: "string entry" where
  "entry_p2 = \<lparr>name = ''Cy'', amount = 5, message = [], locationLabel = ''Oslo'',
     position = None, createdAt = 2000, stripeCustomerID = ''p2''\<rparr>"

section \<open>Lemmas on numbers\<close>

lemma rne_of_int [simp]: "rne (of_int k) = k"
  by (simp add: rne_def)




lemma pw2_add: "(2 :: rat) powi (a + b) = 2 powi a * 2 powi b"
  by (rule power_int_add) simp

lemma pw2_diff: "(2 :: rat) powi (a - b) = 2 powi a / 2 powi b"
  by (rule power_int_diff) simp

lemma pw2_pos [simp]: "(0 :: rat) < 2 powi a"
  by simp

lemma pw2_mono: "a \<le> b \<Longrightarrow> (2 :: rat) powi a \<le> 2 powi b"
  by (rule power_int_increasing) simp_all

lemma pw2_less: "(2 :: rat) powi a < 2 powi b \<Longrightarrow> a < b"
  by (rule ccontr) (use pw2_mono [of b a] in simp)

lemma bitlen_powi:
  assumes "0 < n"
  shows "2 powi (bitlen n - 1) \<le> (of_int n :: rat)" and "(of_int n :: rat) < 2 powi (bitlen n)"
proof -
  from bitlen_bounds [OF assms] have a: "2 ^ nat (bitlen n - 1) \<le> n" and b: "n < 2 ^ nat (bitlen n)"
    by simp_all
  have p: "1 \<le> bitlen n" using assms bitlen_eq_zero_iff [of n] bitlen_nonneg [of n] by linarith
  from a have "(of_int (2 ^ nat (bitlen n - 1)) :: rat) \<le> of_int n" by (simp only: of_int_le_iff)
  then show "2 powi (bitlen n - 1) \<le> (of_int n :: rat)" using p by (simp add: power_int_def)
  from b have "(of_int n :: rat) < of_int (2 ^ nat (bitlen n))" by (simp only: of_int_less_iff)
  then show "(of_int n :: rat) < 2 powi (bitlen n)" using p by (simp add: power_int_def)
qed

lemma ilog2_bounds:
  assumes "0 < x"
  shows "2 powi (ilog2 x) \<le> x" and "x < 2 powi (ilog2 x + 1)"
proof -
  obtain p q where pq: "quotient_of x = (p, q)" by (cases "quotient_of x")
  then have q: "0 < q" and x: "x = of_int p / of_int q"
    by (simp_all add: quotient_of_denom_pos quotient_of_div)
  with assms have p: "0 < p" by (simp add: zero_less_divide_iff)
  let ?k = "bitlen p - bitlen q"
  note bp = bitlen_powi [OF p] and bq = bitlen_powi [OF q]
  have qpos: "(0 :: rat) < of_int q" using q by simp
  have up: "x < 2 powi (?k + 1)"
  proof -
    have "x < 2 powi (bitlen p) / of_int q" unfolding x using bp(2) qpos by (simp add: divide_strict_right_mono)
    also have "\<dots> \<le> 2 powi (bitlen p) / 2 powi (bitlen q - 1)"
      using bq(1) qpos by (intro divide_left_mono) (auto intro!: mult_pos_pos)
    also have "\<dots> = 2 powi (bitlen p - (bitlen q - 1))"
      by (simp only: pw2_diff)
    also have "bitlen p - (bitlen q - 1) = ?k + 1" by simp
    finally show ?thesis .
  qed
  have lo: "2 powi (?k - 1) \<le> x"
  proof -
    have "?k - 1 = bitlen p - 1 - bitlen q" by simp
    then have "2 powi (?k - 1) = 2 powi (bitlen p - 1) / (2 powi (bitlen q) :: rat)"
      by (simp only: pw2_diff)
    also have "\<dots> \<le> of_int p / 2 powi (bitlen q)"
      using bp(1) by (intro divide_right_mono) auto
    also have "\<dots> \<le> of_int p / of_int q"
      using bq(2) qpos p by (intro divide_left_mono) (auto intro!: mult_pos_pos)
    finally show ?thesis unfolding x .
  qed
  show "2 powi (ilog2 x) \<le> x"
    using lo by (auto simp: ilog2_def pq Let_def)
  show "x < 2 powi (ilog2 x + 1)"
    using up by (auto simp: ilog2_def pq Let_def)
qed


lemma double_pos: "0 < x \<Longrightarrow> double x = of_int (rne (x / 2 powi (expo x))) * 2 powi (expo x)"
  by (simp add: double_def Let_def)











lemma double_zero [simp]: "double 0 = 0"
  by (simp add: double_def)



lemma pw2_nat: "0 \<le> a \<Longrightarrow> (2 :: rat) powi a = of_int (2 ^ nat a)"
  by (simp add: power_int_def)

text \<open>A positive multiple of a power of two whose last bit is not below its exponent.\<close>

lemma double_grid:
  assumes "0 < m" "expo (of_int m * 2 powi e) \<le> e"
  shows "double (of_int m * 2 powi e) = of_int m * 2 powi e"
proof -
  let ?r = "of_int m * 2 powi e :: rat"
  let ?e' = "expo ?r"
  have r: "0 < ?r" using assms(1) by simp
  have "?r / 2 powi ?e' = of_int m * 2 powi (e - ?e')"
    by (simp only: pw2_diff) simp
  also have "\<dots> = of_int (m * 2 ^ nat (e - ?e'))"
    using assms(2) by (simp add: pw2_nat)
  finally have "rne (?r / 2 powi ?e') = m * 2 ^ nat (e - ?e')"
    by (simp only: rne_of_int)
  then have "double ?r = of_int (m * 2 ^ nat (e - ?e')) * 2 powi ?e'"
    using r by (simp only: double_pos)
  also have "\<dots> = of_int m * (2 powi (e - ?e') * 2 powi ?e')"
    using assms(2) by (simp add: pw2_nat)
  also have "2 powi (e - ?e') * 2 powi ?e' = (2 powi (e - ?e' + ?e') :: rat)"
    by (simp only: pw2_add)
  finally show ?thesis by simp
qed

lemma expo_le:
  assumes "0 < r" "r < 2 powi (e + 53)" "- 1074 \<le> e"
  shows "expo r \<le> e"
proof -
  have "2 powi (ilog2 r) \<le> r" using assms(1) by (rule ilog2_bounds)
  also have "r < 2 powi (e + 53)" by fact
  finally have "ilog2 r < e + 53" by (rule pw2_less)
  with assms show ?thesis by (simp add: expo_def)
qed


lemma double_of_int:
  assumes "0 \<le> k" "k < 2 ^ 53"
  shows "double (of_int k) = of_int k"
proof (cases "k = 0")
  case True
  then show ?thesis by simp
next
  case False
  with assms have k: "0 < k" by simp
  have "(of_int k :: rat) < of_int (2 ^ 53)" using assms(2) by (simp only: of_int_less_iff)
  then have "(of_int k :: rat) * 2 powi 0 < 2 powi (0 + 53)" by simp
  then have "expo (of_int k * 2 powi 0) \<le> 0"
    using k by (intro expo_le) simp_all
  with k have "double (of_int k * 2 powi 0) = of_int k * 2 powi 0" by (rule double_grid)
  then show ?thesis by simp
qed

lemma js_plus_commute: "js_plus x y = js_plus y x"
  by (simp add: js_plus_def add.commute)

text \<open>The sums of the examples.\<close>

lemma double_examples:
  "double 100000 = 100000" "double 50000 = 50000" "double 30000 = 30000"
  "double 200000 = 200000" "double 70000 = 70000"
  "double 1000 = 1000" "double 500 = 500" "double 300 = 300" "double 2000 = 2000"
  "double 700 = 700" "double 1500 = 1500" "double 1300 = 1300" "double 1800 = 1800"
  using double_of_int [of 100000] double_of_int [of 50000] double_of_int [of 30000]
    double_of_int [of 200000] double_of_int [of 70000]
    double_of_int [of 1000] double_of_int [of 500] double_of_int [of 300]
    double_of_int [of 2000] double_of_int [of 700] double_of_int [of 1500]
    double_of_int [of 1300] double_of_int [of 1800]
  by simp_all

text \<open>
  Sums of doubles are rounded: 10 cents and 20 cents make \<open>0.30000000000000004\<close>, not
  the double of \<open>0.3\<close>; and the order of two top-ups can show in the last bit.
\<close>

lemma js_plus_rounds:
  "js_plus (js_over 10 100) (js_over 20 100) = 5404319552844596 / 2 ^ 54"
  "js_plus (js_over 10 100) (js_over 20 100) \<noteq> js_over 30 100"
  "js_plus (js_plus 1 (js_over 101 100)) (js_over 102 100) \<noteq>
   js_plus (js_plus 1 (js_over 102 100)) (js_over 101 100)"
  by code_simp+

section \<open>Lemmas on the collections\<close>




lemma find_updateOne:
  assumes "\<And>d. stripeCustomerID (g d) = stripeCustomerID d"
  shows "find (\<lambda>d. stripeCustomerID d = c') (updateOne c g es) =
     (if c' = c then map_option g (find (\<lambda>d. stripeCustomerID d = c) es)
      else find (\<lambda>d. stripeCustomerID d = c') es)"
  using assms by (induction es) auto

lemma keys_updateOne:
  assumes "\<And>d. stripeCustomerID (g d) = stripeCustomerID d"
  shows "map stripeCustomerID (updateOne c g es) = map stripeCustomerID es"
  using assms by (induction es) auto


lemma updateOne_cong_found:
  assumes "find (\<lambda>d. stripeCustomerID d = c) es = Some ex"
  shows "updateOne c (\<lambda>d. g ex d) es = updateOne c (\<lambda>d. g d d) es"
  using assms by (induction es) (auto split: if_splits)

lemma find_key_Some:
  "find (\<lambda>d. stripeCustomerID d = c) es = Some ex \<Longrightarrow> stripeCustomerID ex = c"
  by (induction es) (auto split: if_splits)


lemma find_key_None:
  "find (\<lambda>d. stripeCustomerID d = c) es = None \<longleftrightarrow> c \<notin> stripeCustomerID ` set es"
  by (auto simp: find_None_iff)

text \<open>What a validated document holds.\<close>

lemma Entry_new_Inr:
  assumes "Entry_new t e = Inr d"
  shows "ed_name e = Some (name d)" and "ed_locationLabel e = Some (locationLabel d)"
    and "ed_stripeCustomerID e = Some (stripeCustomerID d)"
    and "name d \<noteq> []" and "locationLabel d \<noteq> []" and "stripeCustomerID d \<noteq> []"
    and "amount d = ed_amount e" and "message d = ed_message e" and "createdAt d = t"
  using assms
  by (auto simp: Entry_new_def split: option.splits if_splits sum.splits)




lemma totalAmount_append_new:
  "totalAmount c' (es @ [d]) =
     (case totalAmount c' es of Some t \<Rightarrow> Some t
      | None \<Rightarrow> if stripeCustomerID d = c' then Some (amount d) else None)"
  by (induction es) (auto simp: totalAmount_def)

lemma totalAmount_updateOne:
  assumes "\<And>d. stripeCustomerID (g d) = stripeCustomerID d"
  shows "totalAmount c' (updateOne c g es) =
     (if c' = c then map_option (amount \<circ> g) (find (\<lambda>d. stripeCustomerID d = c) es)
      else totalAmount c' es)"
  using assms by (simp add: totalAmount_def find_updateOne option.map_comp)













lemma find_eq_None: "eid \<notin> set ps \<Longrightarrow> find (\<lambda>p. p = eid) ps = None"
  by (simp add: find_None_iff)

lemma find_eq_Some: "eid \<in> set ps \<Longrightarrow> find (\<lambda>p. p = eid) ps = Some eid"
  by (induction ps) auto







lemma webhook_fresh:
  assumes "ce req = Inr ev" "\<not> findEventFails v" "event_id ev \<notin> set (processedEvents s)"
    "event_type ev = ''checkout.session.completed''"
    "addEntry v (entryData_of pf ev) (entries s) = Inr es'"
  shows "fst (webhook ce pf v req s) = \<lparr>status = 200, body = ''Event received''\<rparr>"
    and "entries (snd (webhook ce pf v req s)) = es'"
    and "processedEvents (snd (webhook ce pf v req s)) =
      (if event_id ev = [] \<or> createEventFails v then processedEvents s
       else processedEvents s @ [event_id ev])"
  using assms
  by (simp_all add: webhook_def ProcessedEvent_findOne_def ProcessedEvent_create_def
      required_def truthy_def find_eq_None Let_def)

lemma addEntry_topup:
  assumes "\<not> findEntryFails v" "\<not> saveEntryFails v" "ed_stripeCustomerID e = Some c"
    "find (\<lambda>d. stripeCustomerID d = c) es = Some ex"
  shows "addEntry v e es =
     Inr (updateOne c (\<lambda>d. d\<lparr>amount := js_plus (amount d) (ed_amount e),
          message := (if ed_message e \<noteq> [] then ed_message e else message d)\<rparr>) es)"
proof -
  have k: "stripeCustomerID ex = c" using assms(4) by (rule find_key_Some)
  have "addEntry v e es = Inr (updateOne c (\<lambda>d. d\<lparr>amount := js_plus (amount ex) (ed_amount e),
          message := (if ed_message e \<noteq> [] then ed_message e else message d)\<rparr>) es)"
    using assms k
    by (auto simp: addEntry_def addEntry_try_def addEntry_write_def Entry_findOne_def
        Entry_save_def)
  also have "updateOne c (\<lambda>d. d\<lparr>amount := js_plus (amount ex) (ed_amount e),
          message := (if ed_message e \<noteq> [] then ed_message e else message d)\<rparr>) es
      = updateOne c (\<lambda>d. d\<lparr>amount := js_plus (amount d) (ed_amount e),
          message := (if ed_message e \<noteq> [] then ed_message e else message d)\<rparr>) es"
    using updateOne_cong_found [OF assms(4), of "\<lambda>x d. d\<lparr>amount := js_plus (amount x) (ed_amount e),
          message := (if ed_message e \<noteq> [] then ed_message e else message d)\<rparr>"] by simp
  finally show ?thesis .
qed

lemma toRow_simps [simp]:
  "stripeCustomerID (toRow e) = stripeCustomerID e"
  "position (toRow e) = position e"
  "lat (toRow e) =
     (case position e of
        Some p \<Rightarrow> (case coordinates p of Some cs \<Rightarrow> index_at cs 1 | None \<Rightarrow> None)
      | None \<Rightarrow> None)"
  "lng (toRow e) =
     (case position e of
        Some p \<Rightarrow> (case coordinates p of Some cs \<Rightarrow> index_at cs 0 | None \<Rightarrow> None)
      | None \<Rightarrow> None)"
  by (simp_all add: toRow_def entry.defs)

lemma filter_key_absent:
  "c \<notin> stripeCustomerID ` set es \<Longrightarrow> filter (\<lambda>d. stripeCustomerID d = c) es = []"
  by (induction es) auto

lemma filter_updateOne:
  assumes "distinct (map stripeCustomerID es)"
    "find (\<lambda>d. stripeCustomerID d = c) es = Some ex"
    "\<And>d. stripeCustomerID (g d) = stripeCustomerID d"
  shows "filter (\<lambda>d. stripeCustomerID d = c) (updateOne c g es) = [g ex]"
  using assms by (induction es) (auto simp: filter_key_absent split: if_splits)

lemma rows_of_customer:
  assumes "\<not> findAllFails v"
  shows "\<exists>rows. getLeaderboard v es = Inr rows \<and>
     filter (\<lambda>r. stripeCustomerID r = c) rows =
       map toRow (sort_key (\<lambda>d. - createdAt d) (filter (\<lambda>d. stripeCustomerID d = c) es))"
  using assms
  by (simp add: getLeaderboard_def Entry_find_sort_createdAt_def filter_map comp_def filter_sort)

lemma sorted_desc_sort_key:
  fixes f :: "'a \<Rightarrow> 'b::linordered_idom"
  shows "sorted_wrt (\<lambda>x y. f y \<le> f x) (sort_key (\<lambda>d. - f d) xs)"
proof -
  have "sorted (map (\<lambda>d. - f d) (sort_key (\<lambda>d. - f d) xs))" by (rule sorted_sort_key)
  then show ?thesis by (simp add: sorted_map)
qed

lemma insort_key_map:
  "insort_key f (g x) (map g xs) = map g (insort_key (\<lambda>a. f (g a)) x xs)"
  by (induction xs) auto

lemma sort_key_map: "sort_key f (map g xs) = map g (sort_key (\<lambda>a. f (g a)) xs)"
  by (induction xs) (auto simp: insort_key_map)

lemma createdAt_toRow [simp]: "createdAt (toRow e) = createdAt e"
  by (simp add: toRow_def entry.defs)

lemma call_runs_addEntry:
  "call_step v (fst (call_step v (Calling e) es)) (snd (call_step v (Calling e) es)) =
     (Returned, case addEntry v e es of Inr es' \<Rightarrow> es' | Inl err \<Rightarrow> es)"
  by (simp add: addEntry_def addEntry_try_def split: sum.split)

lemma run_calls_first:
  "run_calls v (False # False # sch) (Calling a, q, es) =
     run_calls v sch (Returned, q, case addEntry v a es of Inr es' \<Rightarrow> es' | Inl err \<Rightarrow> es)"
  using call_runs_addEntry [of v a es]
  by (cases "call_step v (Calling a) es") (auto split: prod.splits)

lemma run_calls_second:
  "run_calls v (True # True # sch) (p, Calling b, es) =
     run_calls v sch (p, Returned, case addEntry v b es of Inr es' \<Rightarrow> es' | Inl err \<Rightarrow> es)"
  using call_runs_addEntry [of v b es]
  by (cases "call_step v (Calling b) es") (auto split: prod.splits)

lemma addEntry_creates:
  assumes "\<not> findEntryFails v" "\<not> createEntryFails v" "ed_stripeCustomerID e = Some c"
    "c \<notin> stripeCustomerID ` set es" "Entry_new (now v) e = Inr d"
  shows "addEntry v e es = Inr (es @ [d])"
proof -
  have "stripeCustomerID d = c"
    using Entry_new_Inr(3) [OF assms(5)] assms(3) by simp
  with assms show ?thesis
    by (simp add: addEntry_def addEntry_try_def addEntry_write_def Entry_findOne_def
        Entry_create_def find_key_None [THEN iffD2])
qed

lemma addEntry_rejected:
  assumes "\<not> findEntryFails v" "ed_stripeCustomerID e = Some c"
    "c \<notin> stripeCustomerID ` set es" "Entry_new (now v) e = Inl err"
  shows "addEntry v e es = Inr es"
  using assms
  by (simp add: addEntry_def addEntry_try_def addEntry_write_def Entry_findOne_def
      Entry_create_def find_key_None [THEN iffD2])

lemma Entry_new_valid:
  assumes "ed_name e = Some n" "ed_locationLabel e = Some l" "ed_stripeCustomerID e = Some c"
    "n \<noteq> []" "l \<noteq> []" "c \<noteq> []"
  shows "ed_position e = None \<Longrightarrow>
      Entry_new t e = Inr \<lparr>name = n, amount = ed_amount e, message = ed_message e,
        locationLabel = l, position = Some \<lparr>ptype = ''Point'', coordinates = Some []\<rparr>,
        createdAt = t, stripeCustomerID = c\<rparr>"
    and "ed_position e = Some \<lparr>ptype = ''Point'', coordinates = Some [Some x, Some y]\<rparr> \<Longrightarrow>
      Entry_new t e = Inr \<lparr>name = n, amount = ed_amount e, message = ed_message e,
        locationLabel = l, position = Some \<lparr>ptype = ''Point'', coordinates = Some [x, y]\<rparr>,
        createdAt = t, stripeCustomerID = c\<rparr>"
    and "ed_position e = Some \<lparr>ptype = ''Point'', coordinates = Some [a, b]\<rparr> \<Longrightarrow>
      a = None \<or> b = None \<Longrightarrow> Entry_new t e = Inl ValidationError"
  using assms by (auto simp: Entry_new_def cast_position_def split: option.splits)

lemma position_of_event:
  "md_lat (session_metadata (data_object ev)) = Some la \<Longrightarrow>
   md_lng (session_metadata (data_object ev)) = Some lo \<Longrightarrow> la \<noteq> [] \<Longrightarrow> lo \<noteq> [] \<Longrightarrow>
   ed_position (entryData_of pf ev) =
     Some \<lparr>ptype = ''Point'', coordinates = Some [pf lo, pf la]\<rparr>"
  "\<not> truthy (md_lat (session_metadata (data_object ev))) \<or>
   \<not> truthy (md_lng (session_metadata (data_object ev))) \<Longrightarrow>
   ed_position (entryData_of pf ev) = None"
  by (auto simp: entryData_of_def Let_def truthy_def split: option.splits)

lemma entryData_of_simps:
  "ed_name (entryData_of pf ev) = md_name (session_metadata (data_object ev))"
  "ed_locationLabel (entryData_of pf ev) = md_locationLabel (session_metadata (data_object ev))"
  "ed_stripeCustomerID (entryData_of pf ev) =
     md_stripeCustomerID (session_metadata (data_object ev))"
  "ed_amount (entryData_of pf ev) = js_over (double (of_nat (amount_total (data_object ev)))) 100"
  "ed_message (entryData_of pf ev) =
     (case md_message (session_metadata (data_object ev)) of None \<Rightarrow> [] | Some m \<Rightarrow> m)"
  by (simp_all add: entryData_of_def Let_def)


lemma addEntry_topup_total:
  assumes "\<not> findEntryFails v" "\<not> saveEntryFails v" "ed_stripeCustomerID e = Some c"
    "totalAmount c es = Some t"
  shows "\<exists>es'. addEntry v e es = Inr es' \<and>
     totalAmount c es' = Some (js_plus t (ed_amount e))"
proof -
  let ?g = "\<lambda>d. d\<lparr>amount := js_plus (amount d) (ed_amount e),
          message := (if ed_message e \<noteq> [] then ed_message e else message d)\<rparr>"
  from assms(4) obtain ex where ex: "find (\<lambda>d. stripeCustomerID d = c) es = Some ex"
      "amount ex = t"
    by (auto simp: totalAmount_def)
  have "addEntry v e es = Inr (updateOne c ?g es)"
    using assms(1-3) ex(1) by (rule addEntry_topup)
  moreover have "totalAmount c (updateOne c ?g es) = Some (js_plus t (ed_amount e))"
    using ex by (simp add: totalAmount_updateOne)
  ultimately show ?thesis by blast
qed

lemma addEntry_create_total:
  assumes "\<not> findEntryFails v" "\<not> createEntryFails v" "ed_stripeCustomerID e = Some c"
    "totalAmount c es = None" "Entry_new (now v) e = Inr d"
  shows "\<exists>es'. addEntry v e es = Inr es' \<and> totalAmount c es' = Some (ed_amount e)"
proof -
  from assms(4) have n: "c \<notin> stripeCustomerID ` set es"
    by (simp add: totalAmount_def find_key_None)
  have c: "stripeCustomerID d = c"
    using Entry_new_Inr(3) [OF assms(5)] assms(3) by simp
  have "addEntry v e es = Inr (es @ [d])"
    using assms(1,2,3) n assms(5) by (rule addEntry_creates)
  moreover have "totalAmount c (es @ [d]) = Some (ed_amount e)"
    using assms(4) c Entry_new_Inr(7) [OF assms(5)] by (simp add: totalAmount_append_new)
  ultimately show ?thesis by blast
qed

section \<open>The HTTP contract of the webhook\<close>

text \<open>
  Claim C7. The handler answers 400 exactly when \<^verbatim>\<open>constructEvent\<close> throws, that is
  when the signature does not verify. For a verified event it answers 500, and changes
  nothing, when the lookup of the processed event fails; it answers 200 and changes
  nothing when the event is already recorded; and it answers 200 after handling an
  event that was not recorded.
\<close>

theorem webhook_http_contract:
  "(status (fst (webhook ce pf v req s)) = 400 \<longleftrightarrow> (\<exists>msg. ce req = Inl msg)) \<and>
   (\<forall>ev. ce req = Inr ev \<and> findEventFails v \<longrightarrow>
      webhook ce pf v req s = (\<lparr>status = 500, body = ''Internal Server Error''\<rparr>, s)) \<and>
   (\<forall>ev. ce req = Inr ev \<and> \<not> findEventFails v \<and> event_id ev \<in> set (processedEvents s) \<longrightarrow>
      webhook ce pf v req s = (\<lparr>status = 200, body = ''Event already processed''\<rparr>, s)) \<and>
   (\<forall>ev. ce req = Inr ev \<and> \<not> findEventFails v \<and> event_id ev \<notin> set (processedEvents s) \<longrightarrow>
      fst (webhook ce pf v req s) = \<lparr>status = 200, body = ''Event received''\<rparr>)"
  by (cases "ce req")
     (auto simp: webhook_def ProcessedEvent_findOne_def Let_def find_eq_None find_eq_Some
           split: sum.split option.split)

theorem webhook_http_contract_witness:
  "status (fst (webhook (\<lambda>r. Inl ''No signatures found'') Some ok_env ev1 db1)) = 400 \<and>
   webhook Inr Some (ok_env\<lparr>findEventFails := True\<rparr>) ev1 db1 =
     (\<lparr>status = 500, body = ''Internal Server Error''\<rparr>, db1) \<and>
   webhook Inr Some ok_env ev1 db1 =
     (\<lparr>status = 200, body = ''Event already processed''\<rparr>, db1) \<and>
   fst (webhook Inr Some ok_env ev2 db1) = \<lparr>status = 200, body = ''Event received''\<rparr>"
proof -
  have p: "event_id ev1 \<in> set (processedEvents db1)" "event_id ev2 \<notin> set (processedEvents db1)"
    "\<not> findEventFails ok_env" "findEventFails (ok_env\<lparr>findEventFails := True\<rparr>)"
    by (simp_all add: ev1_def ev2_def db1_def ok_env_def)
  note T = webhook_http_contract [where pf = Some and s = db1]
  have a: "status (fst (webhook (\<lambda>r. Inl ''No signatures found'') Some ok_env ev1 db1)) = 400"
    using T [of "\<lambda>r. Inl ''No signatures found''" ok_env ev1] by blast
  have b: "webhook Inr Some (ok_env\<lparr>findEventFails := True\<rparr>) ev1 db1 =
     (\<lparr>status = 500, body = ''Internal Server Error''\<rparr>, db1)"
    using T [of Inr "ok_env\<lparr>findEventFails := True\<rparr>" ev1] p by blast
  have c: "webhook Inr Some ok_env ev1 db1 =
     (\<lparr>status = 200, body = ''Event already processed''\<rparr>, db1)"
    using T [of Inr ok_env ev1] p by blast
  have d: "fst (webhook Inr Some ok_env ev2 db1) = \<lparr>status = 200, body = ''Event received''\<rparr>"
    using T [of Inr ok_env ev2] p by blast
  from a b c d show ?thesis by blast
qed

section \<open>Read failures of the leaderboard\<close>

text \<open>
  Claim C9. \<^verbatim>\<open>getLeaderboard\<close> always resolves, so \<^verbatim>\<open>GET /api/leaderboard\<close>
  always answers 200 with an array and never takes its 500 branch. When the query
  fails the array is empty: the answer is the one an empty collection gives.
\<close>

theorem leaderboard_read_failure:
  "fst (api_leaderboard v s) = 200 \<and>
   (\<exists>list. getLeaderboard v (entries s) = Inr list \<and> api_leaderboard v s = (200, Rows list)) \<and>
   (findAllFails v \<longrightarrow>
      getLeaderboard v (entries s) = Inr [] \<and>
      api_leaderboard v s = (200, Rows []) \<and>
      api_leaderboard v s = api_leaderboard v' (s\<lparr>entries := []\<rparr>))"
  by (simp add: api_leaderboard_def getLeaderboard_def Entry_find_sort_createdAt_def)

theorem leaderboard_read_failure_witness:
  "findAllFails (ok_env\<lparr>findAllFails := True\<rparr>) \<and>
   api_leaderboard (ok_env\<lparr>findAllFails := True\<rparr>) db1 = (200, Rows []) \<and>
   api_leaderboard (ok_env\<lparr>findAllFails := True\<rparr>) db1 = api_leaderboard ok_env (db1\<lparr>entries := []\<rparr>)"
proof -
  have f: "findAllFails (ok_env\<lparr>findAllFails := True\<rparr>)" by simp
  with leaderboard_read_failure [of "ok_env\<lparr>findAllFails := True\<rparr>" db1 ok_env]
  show ?thesis by blast
qed

section \<open>A failing ledger mutation\<close>

text \<open>
  Claim C1, as amended. \<^verbatim>\<open>addEntry\<close> catches every error of its \<^verbatim>\<open>try\<close> block,
  and the handler goes on after it. So when the mutation of a verified, not yet
  processed \<^verbatim>\<open>checkout.session.completed\<close> event fails, the ledger is unchanged, the
  handler still records the event as processed (unless that write is rejected too) and
  answers 200.
\<close>

theorem mutation_failure_swallowed:
  assumes "ce req = Inr ev" and "event_type ev = ''checkout.session.completed''"
    and "\<not> findEventFails v" and "event_id ev \<notin> set (processedEvents s)"
    and "addEntry_try v (entryData_of pf ev) (entries s) = Inl err"
  shows "fst (webhook ce pf v req s) = \<lparr>status = 200, body = ''Event received''\<rparr> \<and>
     entries (snd (webhook ce pf v req s)) = entries s \<and>
     processedEvents (snd (webhook ce pf v req s)) =
       (if event_id ev = [] \<or> createEventFails v then processedEvents s
        else processedEvents s @ [event_id ev])"
proof -
  from assms(5) have "addEntry v (entryData_of pf ev) (entries s) = Inr (entries s)"
    by (simp add: addEntry_def)
  with assms(1-4) show ?thesis
    using webhook_fresh [where ce = ce and req = req and ev = ev and v = v and s = s
        and pf = pf and es' = "entries s"]
    by simp
qed

theorem mutation_failure_swallowed_witness:
  "fst (webhook Inr Some (ok_env\<lparr>createEntryFails := True\<rparr>) ev1 empty_db) =
     \<lparr>status = 200, body = ''Event received''\<rparr> \<and>
   entries (snd (webhook Inr Some (ok_env\<lparr>createEntryFails := True\<rparr>) ev1 empty_db)) = [] \<and>
   processedEvents (snd (webhook Inr Some (ok_env\<lparr>createEntryFails := True\<rparr>) ev1 empty_db)) =
     [''evt_1'']"
proof -
  have f: "addEntry_try (ok_env\<lparr>createEntryFails := True\<rparr>) (entryData_of Some ev1)
      (entries (empty_db :: string db)) = Inl StorageError"
    by (simp add: addEntry_try_def addEntry_write_def Entry_findOne_def Entry_create_def
      Entry_new_def cast_position_def required_def truthy_def
      entryData_of_def ok_env_def ev1_def empty_db_def Let_def)
  have "fst (webhook Inr Some (ok_env\<lparr>createEntryFails := True\<rparr>) ev1 (empty_db :: string db)) =
       \<lparr>status = 200, body = ''Event received''\<rparr> \<and>
     entries (snd (webhook Inr Some (ok_env\<lparr>createEntryFails := True\<rparr>) ev1 (empty_db :: string db)))
       = entries (empty_db :: string db) \<and>
     processedEvents (snd (webhook Inr Some (ok_env\<lparr>createEntryFails := True\<rparr>) ev1 (empty_db :: string db))) =
       (if event_id ev1 = [] \<or> createEventFails (ok_env\<lparr>createEntryFails := True\<rparr>)
        then processedEvents (empty_db :: string db)
        else processedEvents (empty_db :: string db) @ [event_id ev1])"
    by (rule mutation_failure_swallowed [where ev = ev1 and err = StorageError])
       (simp_all add: f, simp_all add: ev1_def ok_env_def empty_db_def)
  then show ?thesis by (simp add: ev1_def ok_env_def empty_db_def)
qed

text \<open>
  The claim as stated fails: \<^verbatim>\<open>Entry.create\<close> is rejected for the first payment of
  a customer, yet the event is recorded and the answer is 200.
\<close>

theorem mutation_failure_counterexample:
  "addEntry_try (ok_env\<lparr>createEntryFails := True\<rparr>) (entryData_of Some ev1) (entries empty_db)
     = Inl StorageError \<and>
   webhook Inr Some (ok_env\<lparr>createEntryFails := True\<rparr>) ev1 empty_db =
     (\<lparr>status = 200, body = ''Event received''\<rparr>,
      \<lparr>entries = [], processedEvents = [''evt_1'']\<rparr>)"
  by (simp add: webhook_def ProcessedEvent_findOne_def ProcessedEvent_create_def
      required_def truthy_def addEntry_def
      addEntry_try_def addEntry_write_def Entry_findOne_def Entry_create_def
      Entry_new_def cast_position_def
      entryData_of_def ok_env_def ev1_def empty_db_def Let_def)

section \<open>Display metadata on a top-up\<close>

text \<open>
  Claim C8, as amended. A verified, not yet processed \<^verbatim>\<open>checkout.session.completed\<close>
  event for a customer who has an entry, with no storage failure: the handler adds
  \<^verbatim>\<open>amount_total / 100\<close> to the entry's amount (both operations on doubles, as in
  the code) and replaces its message when the event brings a non-empty one. The entry's name, location label, position and creation
  date stay as they were, and so does every other entry.
\<close>

theorem topup_metadata:
  assumes "ce req = Inr ev" and "event_type ev = ''checkout.session.completed''"
    and "\<not> findEventFails v" and "event_id ev \<notin> set (processedEvents s)"
    and "\<not> findEntryFails v" and "\<not> saveEntryFails v"
    and "md_stripeCustomerID (session_metadata (data_object ev)) = Some c"
    and "find (\<lambda>d. stripeCustomerID d = c) (entries s) = Some ex"
  shows "(\<exists>ex'. find (\<lambda>d. stripeCustomerID d = c) (entries (snd (webhook ce pf v req s))) = Some ex' \<and>
       amount ex' =
         js_plus (amount ex) (js_over (double (of_nat (amount_total (data_object ev)))) 100) \<and>
       message ex' = (case md_message (session_metadata (data_object ev)) of
                        None \<Rightarrow> message ex
                      | Some m \<Rightarrow> if m = [] then message ex else m) \<and>
       name ex' = name ex \<and> locationLabel ex' = locationLabel ex \<and>
       position ex' = position ex \<and> createdAt ex' = createdAt ex) \<and>
     (\<forall>c'. c' \<noteq> c \<longrightarrow>
        find (\<lambda>d. stripeCustomerID d = c') (entries (snd (webhook ce pf v req s))) =
        find (\<lambda>d. stripeCustomerID d = c') (entries s)) \<and>
     map stripeCustomerID (entries (snd (webhook ce pf v req s))) =
       map stripeCustomerID (entries s)"
proof -
  let ?e = "entryData_of pf ev"
  let ?g = "\<lambda>d. d\<lparr>amount := js_plus (amount d) (ed_amount ?e),
          message := (if ed_message ?e \<noteq> [] then ed_message ?e else message d)\<rparr>"
  have k: "ed_stripeCustomerID ?e = Some c"
    using assms(7) by (simp add: entryData_of_def Let_def)
  have "addEntry v ?e (entries s) = Inr (updateOne c ?g (entries s))"
    using assms(5,6) k assms(8) by (rule addEntry_topup)
  with assms(1-4) have es: "entries (snd (webhook ce pf v req s)) = updateOne c ?g (entries s)"
    using webhook_fresh(2) [where ce = ce and req = req and ev = ev and v = v and s = s
        and pf = pf and es' = "updateOne c ?g (entries s)"]
    by simp
  have g: "\<And>d. stripeCustomerID (?g d) = stripeCustomerID d" by simp
  have a: "ed_amount ?e = js_over (double (of_nat (amount_total (data_object ev)))) 100"
    and m: "ed_message ?e = (case md_message (session_metadata (data_object ev)) of
                        None \<Rightarrow> [] | Some m \<Rightarrow> m)"
    by (simp_all add: entryData_of_def Let_def)
  have "find (\<lambda>d. stripeCustomerID d = c) (updateOne c ?g (entries s)) = Some (?g ex)"
    using assms(8) by (simp add: find_updateOne [where g = "?g", OF g])
  moreover have "\<forall>c'. c' \<noteq> c \<longrightarrow>
        find (\<lambda>d. stripeCustomerID d = c') (updateOne c ?g (entries s)) =
        find (\<lambda>d. stripeCustomerID d = c') (entries s)"
    by (simp add: find_updateOne [where g = "?g", OF g])
  moreover have "map stripeCustomerID (updateOne c ?g (entries s)) =
       map stripeCustomerID (entries s)"
    by (rule keys_updateOne [where g = "?g", OF g])
  ultimately show ?thesis
    unfolding es by (simp add: a m split: option.split)
qed

theorem topup_metadata_witness:
  "find (\<lambda>d. stripeCustomerID d = ''p1'') (entries (snd (webhook Inr Some ok_env ev2 db1))) =
     Some \<lparr>name = ''Ann'', amount = 1500, message = ''yo'', locationLabel = ''Paris'',
       position = Some \<lparr>ptype = ''Point'', coordinates = Some [''2.35'', ''48.85'']\<rparr>,
       createdAt = 1000, stripeCustomerID = ''p1''\<rparr> \<and>
   find (\<lambda>d. stripeCustomerID d = ''p2'') (entries (snd (webhook Inr Some ok_env ev2 db1))) = None \<and>
   map stripeCustomerID (entries (snd (webhook Inr Some ok_env ev2 db1))) = [''p1'']"
proof -
  let ?ex = "\<lparr>name = ''Ann'', amount = 1000, message = ''hi'', locationLabel = ''Paris'',
       position = Some \<lparr>ptype = ''Point'', coordinates = Some [''2.35'', ''48.85'']\<rparr>,
       createdAt = 1000, stripeCustomerID = ''p1''\<rparr>"
  have f: "find (\<lambda>d. stripeCustomerID d = ''p1'') (entries db1) = Some ?ex"
    by (simp add: db1_def)
  have h: "(Inr :: event \<Rightarrow> string + event) ev2 = Inr ev2"
    "event_type ev2 = ''checkout.session.completed''"
    "\<not> findEventFails ok_env" "event_id ev2 \<notin> set (processedEvents db1)"
    "\<not> findEntryFails ok_env" "\<not> saveEntryFails ok_env"
    "md_stripeCustomerID (session_metadata (data_object ev2)) = Some ''p1''"
    by (simp_all add: ev2_def ok_env_def db1_def)
  note T = topup_metadata [where ce = Inr and pf = Some and req = ev2 and s = db1, OF h f]
  have o: "find (\<lambda>d. stripeCustomerID d = ''p2'') (entries (snd (webhook Inr Some ok_env ev2 db1))) =
      find (\<lambda>d. stripeCustomerID d = ''p2'') (entries db1)"
    using T [THEN conjunct2, THEN conjunct1, rule_format, of "''p2''"] by simp
  have m: "map stripeCustomerID (entries (snd (webhook Inr Some ok_env ev2 db1))) =
      map stripeCustomerID (entries db1)"
    using T by (rule conjunct2 [THEN conjunct2])
  from T [THEN conjunct1]
  obtain ex' where x: "find (\<lambda>d. stripeCustomerID d = ''p1'')
        (entries (snd (webhook Inr Some ok_env ev2 db1))) = Some ex'"
    "amount ex' =
       js_plus (amount ?ex) (js_over (double (of_nat (amount_total (data_object ev2)))) 100)"
    "message ex' = (case md_message (session_metadata (data_object ev2)) of
                        None \<Rightarrow> message ?ex
                      | Some m \<Rightarrow> if m = [] then message ?ex else m)"
    "name ex' = name ?ex" "locationLabel ex' = locationLabel ?ex"
    "position ex' = position ?ex" "createdAt ex' = createdAt ?ex"
    by blast
  have k: "stripeCustomerID ex' = ''p1''" using x(1) by (rule find_key_Some)
  have "ex' = \<lparr>name = ''Ann'', amount = 1500, message = ''yo'', locationLabel = ''Paris'',
       position = Some \<lparr>ptype = ''Point'', coordinates = Some [''2.35'', ''48.85'']\<rparr>,
       createdAt = 1000, stripeCustomerID = ''p1''\<rparr>"
    using x(2-7) k by (cases ex') (simp add: ev2_def js_plus_def js_over_def double_examples)
  with x(1) o m show ?thesis by (simp add: db1_def)
qed

text \<open>
  The claim as stated fails: the second payment of customer p1 brings the name Bob, the
  location Rome and other coordinates, and the entry keeps Ann, Paris and its position.
\<close>

theorem topup_metadata_counterexample:
  "md_name (session_metadata (data_object ev2)) = Some ''Bob'' \<and>
   md_locationLabel (session_metadata (data_object ev2)) = Some ''Rome'' \<and>
   md_lat (session_metadata (data_object ev2)) = Some ''41.90'' \<and>
   md_lng (session_metadata (data_object ev2)) = Some ''12.50'' \<and>
   entries (snd (webhook Inr Some ok_env ev2 db1)) =
     [\<lparr>name = ''Ann'', amount = 1500, message = ''yo'', locationLabel = ''Paris'',
       position = Some \<lparr>ptype = ''Point'', coordinates = Some [''2.35'', ''48.85'']\<rparr>,
       createdAt = 1000, stripeCustomerID = ''p1''\<rparr>]"
  by (simp add: webhook_def ProcessedEvent_findOne_def ProcessedEvent_create_def
      required_def truthy_def addEntry_def addEntry_try_def addEntry_write_def
      Entry_findOne_def Entry_save_def entryData_of_def ok_env_def ev2_def db1_def Let_def
      js_plus_def js_over_def double_examples)

section \<open>Order of the leaderboard\<close>

text \<open>
  Claim C6, as amended. The earlier \<^verbatim>\<open>getLeaderboard\<close> returns all entries, the
  greater amount first: the entries A:50, B:30, C:80 come back as C, A, B. The query
  sorts on the amount alone, so entries with equal amounts are not ordered by
  \<^verbatim>\<open>stripeCustomerID\<close>. The later \<^verbatim>\<open>getLeaderboard\<close> returns all entries, the
  later \<^verbatim>\<open>createdAt\<close> first, and the order does not depend on the amounts.
\<close>

theorem ranking_order:
  "sorted_wrt (\<lambda>x y. v1_amount y \<le> v1_amount x) (getLeaderboard_v1 False es) \<and>
   mset (getLeaderboard_v1 False es) = mset es \<and>
   map v1_stripeCustomerID (getLeaderboard_v1 False [payer ''A'' 50, payer ''B'' 30, payer ''C'' 80])
     = [''C'', ''A'', ''B''] \<and>
   (\<not> findAllFails v \<longrightarrow>
      (\<exists>rows. getLeaderboard v es' = Inr rows \<and>
         sorted_wrt (\<lambda>x y. createdAt y \<le> createdAt x) rows \<and>
         mset rows = image_mset toRow (mset es') \<and>
         (\<forall>f. \<exists>rows'. getLeaderboard v (map (\<lambda>d. d\<lparr>amount := f d\<rparr>) es') = Inr rows' \<and>
            map stripeCustomerID rows' = map stripeCustomerID rows)))"
proof (intro conjI impI)
  show "sorted_wrt (\<lambda>x y. v1_amount y \<le> v1_amount x) (getLeaderboard_v1 False es)"
    by (simp add: getLeaderboard_v1_def Entry_find_sort_amount_def sorted_desc_sort_key)
  show "mset (getLeaderboard_v1 False es) = mset es"
    by (simp add: getLeaderboard_v1_def Entry_find_sort_amount_def)
  show "map v1_stripeCustomerID
      (getLeaderboard_v1 False [payer ''A'' 50, payer ''B'' 30, payer ''C'' 80]) = [''C'', ''A'', ''B'']"
    by (simp add: getLeaderboard_v1_def Entry_find_sort_amount_def payer_def)
next
  assume ok: "\<not> findAllFails v"
  let ?k = "\<lambda>d :: 'b entry. - createdAt d"
  let ?rows = "map toRow (sort_key ?k es')"
  have r: "getLeaderboard v es' = Inr ?rows"
    using ok by (simp add: getLeaderboard_def Entry_find_sort_createdAt_def)
  have s: "sorted_wrt (\<lambda>x y. createdAt y \<le> createdAt x) ?rows"
    using sorted_desc_sort_key [of createdAt es'] by (simp add: sorted_wrt_map)
  have m: "mset ?rows = image_mset toRow (mset es')" by simp
  have i: "\<exists>rows'. getLeaderboard v (map (\<lambda>d. d\<lparr>amount := f d\<rparr>) es') = Inr rows' \<and>
            map stripeCustomerID rows' = map stripeCustomerID ?rows" for f
  proof -
    have "sort_key ?k (map (\<lambda>d. d\<lparr>amount := f d\<rparr>) es') =
        map (\<lambda>d. d\<lparr>amount := f d\<rparr>) (sort_key ?k es')"
      by (simp add: sort_key_map)
    then show ?thesis
      using ok by (simp add: getLeaderboard_def Entry_find_sort_createdAt_def comp_def)
  qed
  have i': "\<forall>f. \<exists>rows'. getLeaderboard v (map (\<lambda>d. d\<lparr>amount := f d\<rparr>) es') = Inr rows' \<and>
            map stripeCustomerID rows' = map stripeCustomerID ?rows"
    by (intro allI) (rule i)
  show "\<exists>rows. getLeaderboard v es' = Inr rows \<and>
         sorted_wrt (\<lambda>x y. createdAt y \<le> createdAt x) rows \<and>
         mset rows = image_mset toRow (mset es') \<and>
         (\<forall>f. \<exists>rows'. getLeaderboard v (map (\<lambda>d. d\<lparr>amount := f d\<rparr>) es') = Inr rows' \<and>
            map stripeCustomerID rows' = map stripeCustomerID rows)"
    by (rule exI [of _ ?rows]) (intro conjI r s m i')
qed

theorem ranking_order_witness:
  "\<not> findAllFails ok_env \<and>
   (\<exists>rows. getLeaderboard ok_env (entries db1 @ [entry_p2]) = Inr rows \<and>
      sorted_wrt (\<lambda>x y. createdAt y \<le> createdAt x) rows \<and>
      mset rows = image_mset toRow (mset (entries db1 @ [entry_p2])) \<and>
      map stripeCustomerID rows = [''p2'', ''p1''])"
proof -
  have ok: "\<not> findAllFails ok_env" by (simp add: ok_env_def)
  note ranking_order [of "[]" ok_env "entries db1 @ [entry_p2]",
      THEN conjunct2, THEN conjunct2, THEN conjunct2, THEN mp, OF ok]
  then obtain rows where x: "getLeaderboard ok_env (entries db1 @ [entry_p2]) = Inr rows"
    "sorted_wrt (\<lambda>x y. createdAt y \<le> createdAt x) rows"
    "mset rows = image_mset toRow (mset (entries db1 @ [entry_p2]))"
    by (elim exE conjE)
  have "getLeaderboard ok_env (entries db1 @ [entry_p2]) =
      Inr (map toRow [entry_p2, hd (entries db1)])"
    by (simp add: getLeaderboard_def Entry_find_sort_createdAt_def ok_env_def db1_def
        entry_p2_def)
  with x(1) have "rows = map toRow [entry_p2, hd (entries db1)]"
    by simp
  then have k: "map stripeCustomerID rows = [''p2'', ''p1'']"
    by (simp add: db1_def entry_p2_def)
  let ?P = "\<lambda>rows. getLeaderboard ok_env (entries db1 @ [entry_p2]) = Inr rows \<and>
      sorted_wrt (\<lambda>x y. createdAt y \<le> createdAt x) rows \<and>
      mset rows = image_mset toRow (mset (entries db1 @ [entry_p2])) \<and>
      map stripeCustomerID rows = [''p2'', ''p1'']"
  have "?P rows"
    using x k by (intro conjI)
  then have "\<exists>rows. ?P rows"
    by (rule exI [of ?P rows])
  with ok show ?thesis by (rule conjI)
qed

text \<open>
  The claim as stated fails: two entries with the same amount come back in the order
  of the collection, B before A in one collection and A before B in the other.
\<close>

theorem ranking_order_counterexample:
  "getLeaderboard_v1 False [payer ''B'' 50, payer ''A'' 50] = [payer ''B'' 50, payer ''A'' 50] \<and>
   getLeaderboard_v1 False [payer ''A'' 50, payer ''B'' 50] = [payer ''A'' 50, payer ''B'' 50]"
  by (simp add: getLeaderboard_v1_def Entry_find_sort_amount_def payer_def)

section \<open>Idempotence of redelivery\<close>




section \<open>Invariants of the ledger\<close>




section \<open>Creation of the entry of a new payer\<close>

text \<open>
  Claim C5, as amended. A verified \<^verbatim>\<open>checkout.session.completed\<close> event that was not
  processed before, for a customer without an entry, handled without storage failure,
  whose metadata has what the schema requires: a name, a location label and a customer,
  none of them empty. The handler appends exactly one entry to the ledger, with the
  amount \<^verbatim>\<open>amount_total / 100\<close> (a double) and the event's name, message and location
  label. When the metadata has non-empty \<^verbatim>\<open>lat\<close> and \<^verbatim>\<open>lng\<close> that
  \<^verbatim>\<open>parseFloat\<close> reads as the numbers \<open>y\<close> and \<open>x\<close>, the entry's position is the
  point \<open>[x, y]\<close>; when one of them is missing or empty, it is the schema's default,
  a point of no coordinates.
\<close>

theorem new_payer_creation:
  assumes "ce req = Inr ev" and "event_type ev = ''checkout.session.completed''"
    and "\<not> findEventFails v" and "event_id ev \<notin> set (processedEvents s)"
    and "\<not> findEntryFails v" and "\<not> createEntryFails v"
    and "session_metadata (data_object ev) = md"
    and "md_stripeCustomerID md = Some c" and "md_name md = Some n"
    and "md_locationLabel md = Some l"
    and "c \<noteq> []" and "n \<noteq> []" and "l \<noteq> []"
    and "c \<notin> stripeCustomerID ` set (entries s)"
  shows "(\<forall>la lo x y. md_lat md = Some la \<and> md_lng md = Some lo \<and> la \<noteq> [] \<and> lo \<noteq> [] \<and>
            pf la = Some y \<and> pf lo = Some x \<longrightarrow>
          entries (snd (webhook ce pf v req s)) =
            entries s @
              [\<lparr>name = n,
                amount = js_over (double (of_nat (amount_total (data_object ev)))) 100,
                message = (case md_message md of None \<Rightarrow> [] | Some m \<Rightarrow> m),
                locationLabel = l,
                position = Some \<lparr>ptype = ''Point'', coordinates = Some [x, y]\<rparr>,
                createdAt = now v, stripeCustomerID = c\<rparr>]) \<and>
         (\<not> truthy (md_lat md) \<or> \<not> truthy (md_lng md) \<longrightarrow>
          entries (snd (webhook ce pf v req s)) =
            entries s @
              [\<lparr>name = n,
                amount = js_over (double (of_nat (amount_total (data_object ev)))) 100,
                message = (case md_message md of None \<Rightarrow> [] | Some m \<Rightarrow> m),
                locationLabel = l,
                position = Some \<lparr>ptype = ''Point'', coordinates = Some []\<rparr>,
                createdAt = now v, stripeCustomerID = c\<rparr>])"
proof (intro conjI allI impI)
  let ?e = "entryData_of pf ev"
  have e: "ed_name ?e = Some n" "ed_locationLabel ?e = Some l" "ed_stripeCustomerID ?e = Some c"
    using assms(8-10) unfolding assms(7) [symmetric] by (simp_all add: entryData_of_simps)
  have w: "entries (snd (webhook ce pf v req s)) = entries s @ [d]"
    if "Entry_new (now v) ?e = Inr d" for d
  proof -
    have "addEntry v ?e (entries s) = Inr (entries s @ [d])"
      using assms(5,6) e(3) assms(14) that by (rule addEntry_creates)
    with assms(1,3,4,2) show ?thesis
      by (rule webhook_fresh(2))
  qed
  {
    fix la lo x y
    assume h: "md_lat md = Some la \<and> md_lng md = Some lo \<and> la \<noteq> [] \<and> lo \<noteq> [] \<and>
        pf la = Some y \<and> pf lo = Some x"
    then have "ed_position ?e = Some \<lparr>ptype = ''Point'', coordinates = Some [Some x, Some y]\<rparr>"
      using position_of_event(1) [of ev la lo pf] unfolding assms(7) by simp
    from Entry_new_valid(2) [OF e assms(12,13,11) this, of "now v"]
    show "entries (snd (webhook ce pf v req s)) =
        entries s @
          [\<lparr>name = n,
            amount = js_over (double (of_nat (amount_total (data_object ev)))) 100,
            message = (case md_message md of None \<Rightarrow> [] | Some m \<Rightarrow> m),
            locationLabel = l,
            position = Some \<lparr>ptype = ''Point'', coordinates = Some [x, y]\<rparr>,
            createdAt = now v, stripeCustomerID = c\<rparr>]"
      unfolding assms(7) [symmetric] by (simp add: w entryData_of_simps)
  next
    assume "\<not> truthy (md_lat md) \<or> \<not> truthy (md_lng md)"
    then have "ed_position ?e = None"
      using position_of_event(2) [of ev pf] unfolding assms(7) by simp
    from Entry_new_valid(1) [OF e assms(12,13,11) this, of "now v"]
    show "entries (snd (webhook ce pf v req s)) =
        entries s @
          [\<lparr>name = n,
            amount = js_over (double (of_nat (amount_total (data_object ev)))) 100,
            message = (case md_message md of None \<Rightarrow> [] | Some m \<Rightarrow> m),
            locationLabel = l,
            position = Some \<lparr>ptype = ''Point'', coordinates = Some []\<rparr>,
            createdAt = now v, stripeCustomerID = c\<rparr>]"
      unfolding assms(7) [symmetric] by (simp add: w entryData_of_simps)
  }
qed

theorem new_payer_creation_witness:
  "entries (snd (webhook Inr Some ok_env ev1 empty_db)) =
     [\<lparr>name = ''Ann'', amount = 1000, message = ''hi'', locationLabel = ''Paris'',
       position = Some \<lparr>ptype = ''Point'', coordinates = Some [''2.35'', ''48.85'']\<rparr>,
       createdAt = 1000, stripeCustomerID = ''p1''\<rparr>] \<and>
   entries (snd (webhook Inr Some ok_env ev3 db1)) =
     entries db1 @
     [\<lparr>name = ''Cy'', amount = 2000, message = [], locationLabel = ''Oslo'',
       position = Some \<lparr>ptype = ''Point'', coordinates = Some []\<rparr>,
       createdAt = 1000, stripeCustomerID = ''p2''\<rparr>]"
proof -
  let ?m1 = "\<lparr>md_name = Some ''Ann'', md_stripeCustomerID = Some ''p1'',
         md_locationLabel = Some ''Paris'', md_message = Some ''hi'',
         md_lat = Some ''48.85'', md_lng = Some ''2.35''\<rparr>"
  let ?m3 = "\<lparr>md_name = Some ''Cy'', md_stripeCustomerID = Some ''p2'',
         md_locationLabel = Some ''Oslo'', md_message = None,
         md_lat = None, md_lng = None\<rparr>"
  have h1: "(Inr :: event \<Rightarrow> string + event) ev1 = Inr ev1"
    "event_type ev1 = ''checkout.session.completed''"
    "\<not> findEventFails ok_env" "event_id ev1 \<notin> set (processedEvents (empty_db :: string db))"
    "\<not> findEntryFails ok_env" "\<not> createEntryFails ok_env"
    "session_metadata (data_object ev1) = ?m1"
    "md_stripeCustomerID ?m1 = Some ''p1''" "md_name ?m1 = Some ''Ann''"
    "md_locationLabel ?m1 = Some ''Paris''"
    "''p1'' \<noteq> []" "''Ann'' \<noteq> []" "''Paris'' \<noteq> []"
    "''p1'' \<notin> stripeCustomerID ` set (entries (empty_db :: string db))"
    by (simp_all add: ev1_def ok_env_def empty_db_def)
  have h3: "(Inr :: event \<Rightarrow> string + event) ev3 = Inr ev3"
    "event_type ev3 = ''checkout.session.completed''"
    "\<not> findEventFails ok_env" "event_id ev3 \<notin> set (processedEvents db1)"
    "\<not> findEntryFails ok_env" "\<not> createEntryFails ok_env"
    "session_metadata (data_object ev3) = ?m3"
    "md_stripeCustomerID ?m3 = Some ''p2''" "md_name ?m3 = Some ''Cy''"
    "md_locationLabel ?m3 = Some ''Oslo''"
    "''p2'' \<noteq> []" "''Cy'' \<noteq> []" "''Oslo'' \<noteq> []"
    "''p2'' \<notin> stripeCustomerID ` set (entries db1)"
    by (simp_all add: ev3_def ok_env_def db1_def)
  have c1: "md_lat ?m1 = Some ''48.85'' \<and> md_lng ?m1 = Some ''2.35'' \<and> ''48.85'' \<noteq> [] \<and>
      ''2.35'' \<noteq> [] \<and> Some ''48.85'' = Some ''48.85'' \<and> Some ''2.35'' = Some ''2.35''"
    by simp
  have c3: "\<not> truthy (md_lat ?m3) \<or> \<not> truthy (md_lng ?m3)"
    by (simp add: truthy_def)
  have a1: "js_over (double (of_nat (amount_total (data_object ev1)))) 100 = 1000"
    and a3: "js_over (double (of_nat (amount_total (data_object ev3)))) 100 = 2000"
    by (simp_all add: ev1_def ev3_def js_over_def double_examples)
  note A = new_payer_creation [where ce = Inr and pf = Some and req = ev1 and s = empty_db,
      OF h1, THEN conjunct1, rule_format,
      where la = "''48.85''" and lo = "''2.35''" and x = "''2.35''" and y = "''48.85''",
      OF c1, unfolded a1]
  note B = new_payer_creation [where ce = Inr and pf = Some and req = ev3 and s = db1,
      OF h3, THEN conjunct2, rule_format, OF c3, unfolded a3]
  from A B show ?thesis
    by (simp add: ok_env_def empty_db_def)
qed

text \<open>
  The claim as stated fails: the metadata of the payment of customer p3, who has no
  entry, has no location label. \<^verbatim>\<open>Entry.create\<close> rejects the document, the error is
  caught, and the handler records the event and answers 200 with no entry created.
\<close>

theorem new_payer_creation_counterexample:
  "''p3'' \<notin> stripeCustomerID ` set (entries db1) \<and>
   webhook Inr Some ok_env ev5 db1 =
     (\<lparr>status = 200, body = ''Event received''\<rparr>,
      db1\<lparr>processedEvents := [''evt_1'', ''evt_5'']\<rparr>)"
  by (simp add: webhook_def ProcessedEvent_findOne_def ProcessedEvent_create_def
      required_def truthy_def addEntry_def addEntry_try_def addEntry_write_def
      Entry_findOne_def Entry_create_def Entry_new_def entryData_of_def
      ok_env_def ev5_def db1_def Let_def)

section \<open>Coordinates from the event to the read API\<close>

text \<open>
  Claim C10, as amended. Take a verified, not yet processed
  \<^verbatim>\<open>checkout.session.completed\<close> event of customer \<open>c\<close>, handled without storage
  failure, and the rows that \<^verbatim>\<open>getLeaderboard\<close> returns afterwards. The ledger
  holds at most one entry for each customer.

  When \<open>c\<close> has no entry and the metadata has a name and a location label, the event
  creates the entry of \<open>c\<close>. If the metadata has non-empty \<^verbatim>\<open>lat\<close> and \<^verbatim>\<open>lng\<close>
  that \<^verbatim>\<open>parseFloat\<close> reads as the numbers \<open>y\<close> and \<open>x\<close>, the position is stored
  as \<open>[x, y]\<close> and the one row of \<open>c\<close> has \<^verbatim>\<open>lat\<close> \<open>y\<close> and \<^verbatim>\<open>lng\<close> \<open>x\<close>. If
  \<^verbatim>\<open>parseFloat\<close> reads one of them as \<^verbatim>\<open>NaN\<close>, \<^verbatim>\<open>Entry.create\<close> rejects the
  document: the ledger stays as it was and there is no row of \<open>c\<close>. If one of them is
  missing or empty, the row's \<^verbatim>\<open>lat\<close> and \<^verbatim>\<open>lng\<close> are undefined.

  When \<open>c\<close> has an entry already, the event is a top-up: the row's \<^verbatim>\<open>lat\<close> and
  \<^verbatim>\<open>lng\<close> are those of the stored entry, whatever the event's metadata says.
\<close>

theorem coordinates_round_trip:
  assumes "ce req = Inr ev" and "event_type ev = ''checkout.session.completed''"
    and "\<not> findEventFails v" and "event_id ev \<notin> set (processedEvents s)"
    and "\<not> findEntryFails v" and "\<not> findAllFails v'"
    and "md_stripeCustomerID (session_metadata (data_object ev)) = Some c"
    and "distinct (map stripeCustomerID (entries s))"
  shows "(c \<notin> stripeCustomerID ` set (entries s) \<and> c \<noteq> [] \<and> \<not> createEntryFails v \<and>
          truthy (md_name (session_metadata (data_object ev))) \<and>
          truthy (md_locationLabel (session_metadata (data_object ev))) \<longrightarrow>
          (\<forall>la lo x y. md_lat (session_metadata (data_object ev)) = Some la \<and>
                        md_lng (session_metadata (data_object ev)) = Some lo \<and>
                        la \<noteq> [] \<and> lo \<noteq> [] \<and> pf la = Some y \<and> pf lo = Some x \<longrightarrow>
             (\<exists>rows r. getLeaderboard v' (entries (snd (webhook ce pf v req s))) = Inr rows \<and>
                filter (\<lambda>r. stripeCustomerID r = c) rows = [r] \<and>
                position r = Some \<lparr>ptype = ''Point'', coordinates = Some [x, y]\<rparr> \<and>
                lat r = Some y \<and> lng r = Some x)) \<and>
          (\<forall>la lo. md_lat (session_metadata (data_object ev)) = Some la \<and>
                    md_lng (session_metadata (data_object ev)) = Some lo \<and>
                    la \<noteq> [] \<and> lo \<noteq> [] \<and> (pf la = None \<or> pf lo = None) \<longrightarrow>
             entries (snd (webhook ce pf v req s)) = entries s \<and>
             (\<exists>rows. getLeaderboard v' (entries (snd (webhook ce pf v req s))) = Inr rows \<and>
                filter (\<lambda>r. stripeCustomerID r = c) rows = [])) \<and>
          (\<not> truthy (md_lat (session_metadata (data_object ev))) \<or>
           \<not> truthy (md_lng (session_metadata (data_object ev))) \<longrightarrow>
             (\<exists>rows r. getLeaderboard v' (entries (snd (webhook ce pf v req s))) = Inr rows \<and>
                filter (\<lambda>r. stripeCustomerID r = c) rows = [r] \<and>
                lat r = None \<and> lng r = None))) \<and>
         (\<forall>ex. find (\<lambda>d. stripeCustomerID d = c) (entries s) = Some ex \<and> \<not> saveEntryFails v \<longrightarrow>
          (\<exists>rows r. getLeaderboard v' (entries (snd (webhook ce pf v req s))) = Inr rows \<and>
             filter (\<lambda>r. stripeCustomerID r = c) rows = [r] \<and>
             position r = position ex \<and> lat r = lat (toRow ex) \<and> lng r = lng (toRow ex)))"
proof -
  let ?md = "session_metadata (data_object ev)"
  let ?e = "entryData_of pf ev"
  let ?N = "c \<notin> stripeCustomerID ` set (entries s) \<and> c \<noteq> [] \<and> \<not> createEntryFails v \<and>
          truthy (md_name ?md) \<and> truthy (md_locationLabel ?md)"
  have k: "ed_stripeCustomerID ?e = Some c"
    using assms(7) by (simp add: entryData_of_simps)
  have wh: "entries (snd (webhook ce pf v req s)) = es'"
    if "addEntry v ?e (entries s) = Inr es'" for es'
    using assms(1,3,4,2) that by (rule webhook_fresh(2))
  have created: "\<exists>rows. getLeaderboard v' (entries (snd (webhook ce pf v req s))) = Inr rows \<and>
      filter (\<lambda>r. stripeCustomerID r = c) rows = [toRow d]"
    if n: "?N" and d: "Entry_new (now v) ?e = Inr d" for d
  proof -
    from n have n': "c \<notin> stripeCustomerID ` set (entries s)" "\<not> createEntryFails v"
      by simp_all
    have "addEntry v ?e (entries s) = Inr (entries s @ [d])"
      using assms(5) n'(2) k n'(1) d by (rule addEntry_creates)
    then have es: "entries (snd (webhook ce pf v req s)) = entries s @ [d]"
      by (rule wh)
    have c: "stripeCustomerID d = c"
      using Entry_new_Inr(3) [OF d] k by simp
    from rows_of_customer [OF assms(6), of "entries s @ [d]" c] n'(1) c
    show ?thesis
      unfolding es by (auto simp: filter_key_absent)
  qed
  have valid: "\<exists>nm l. ed_name ?e = Some nm \<and> ed_locationLabel ?e = Some l \<and> nm \<noteq> [] \<and> l \<noteq> []"
    if "?N"
    using that by (auto simp: entryData_of_simps truthy_def split: option.splits)
  show ?thesis
  proof (intro conjI impI allI)
    fix la lo x y
    assume n: "?N"
      and h: "md_lat ?md = Some la \<and> md_lng ?md = Some lo \<and> la \<noteq> [] \<and> lo \<noteq> [] \<and>
        pf la = Some y \<and> pf lo = Some x"
    from valid [OF n] obtain nm l where nl: "ed_name ?e = Some nm" "ed_locationLabel ?e = Some l"
        "nm \<noteq> []" "l \<noteq> []"
      by blast
    from n have c: "c \<noteq> []" by simp
    from h have "ed_position ?e = Some \<lparr>ptype = ''Point'', coordinates = Some [Some x, Some y]\<rparr>"
      using position_of_event(1) [of ev la lo pf] by simp
    from Entry_new_valid(2) [OF nl(1,2) k nl(3,4) c this, of "now v"]
    obtain d where d: "Entry_new (now v) ?e = Inr d"
      "position d = Some \<lparr>ptype = ''Point'', coordinates = Some [x, y]\<rparr>"
      by simp
    from created [OF n d(1)] obtain rows where
      "getLeaderboard v' (entries (snd (webhook ce pf v req s))) = Inr rows"
      "filter (\<lambda>r. stripeCustomerID r = c) rows = [toRow d]"
      by blast
    moreover have "position (toRow d) = Some \<lparr>ptype = ''Point'', coordinates = Some [x, y]\<rparr> \<and>
        lat (toRow d) = Some y \<and> lng (toRow d) = Some x"
      using d(2) by (simp add: index_at_def)
    ultimately show "\<exists>rows r.
        getLeaderboard v' (entries (snd (webhook ce pf v req s))) = Inr rows \<and>
        filter (\<lambda>r. stripeCustomerID r = c) rows = [r] \<and>
        position r = Some \<lparr>ptype = ''Point'', coordinates = Some [x, y]\<rparr> \<and>
        lat r = Some y \<and> lng r = Some x"
      by blast
  next
    fix la lo
    assume n: "?N"
      and h: "md_lat ?md = Some la \<and> md_lng ?md = Some lo \<and> la \<noteq> [] \<and> lo \<noteq> [] \<and>
        (pf la = None \<or> pf lo = None)"
    from valid [OF n] obtain nm l where nl: "ed_name ?e = Some nm" "ed_locationLabel ?e = Some l"
        "nm \<noteq> []" "l \<noteq> []"
      by blast
    from n have c: "c \<noteq> []" "c \<notin> stripeCustomerID ` set (entries s)" by simp_all
    from h have p: "ed_position ?e = Some \<lparr>ptype = ''Point'', coordinates = Some [pf lo, pf la]\<rparr>"
      using position_of_event(1) [of ev la lo pf] by simp
    from h have "pf lo = None \<or> pf la = None" by auto
    with Entry_new_valid(3) [OF nl(1,2) k nl(3,4) c(1) p, of "now v"]
    have "Entry_new (now v) ?e = Inl ValidationError"
      by blast
    with assms(5) k c(2) have "addEntry v ?e (entries s) = Inr (entries s)"
      by (rule addEntry_rejected)
    then show es: "entries (snd (webhook ce pf v req s)) = entries s"
      by (rule wh)
    from rows_of_customer [OF assms(6), of "entries s" c] c(2)
    show "\<exists>rows. getLeaderboard v' (entries (snd (webhook ce pf v req s))) = Inr rows \<and>
        filter (\<lambda>r. stripeCustomerID r = c) rows = []"
      unfolding es by (auto simp: filter_key_absent)
  next
    assume n: "?N"
      and h: "\<not> truthy (md_lat ?md) \<or> \<not> truthy (md_lng ?md)"
    from valid [OF n] obtain nm l where nl: "ed_name ?e = Some nm" "ed_locationLabel ?e = Some l"
        "nm \<noteq> []" "l \<noteq> []"
      by blast
    from n have c: "c \<noteq> []" by simp
    from h have "ed_position ?e = None"
      by (rule position_of_event(2))
    from Entry_new_valid(1) [OF nl(1,2) k nl(3,4) c this, of "now v"]
    obtain d where d: "Entry_new (now v) ?e = Inr d"
      "position d = Some \<lparr>ptype = ''Point'', coordinates = Some []\<rparr>"
      by simp
    from created [OF n d(1)] obtain rows where
      "getLeaderboard v' (entries (snd (webhook ce pf v req s))) = Inr rows"
      "filter (\<lambda>r. stripeCustomerID r = c) rows = [toRow d]"
      by blast
    moreover have "lat (toRow d) = None \<and> lng (toRow d) = None"
      using d(2) by (simp add: index_at_def)
    ultimately show "\<exists>rows r.
        getLeaderboard v' (entries (snd (webhook ce pf v req s))) = Inr rows \<and>
        filter (\<lambda>r. stripeCustomerID r = c) rows = [r] \<and> lat r = None \<and> lng r = None"
      by blast
  next
    fix ex
    let ?g = "\<lambda>d. d\<lparr>amount := js_plus (amount d) (ed_amount ?e),
            message := (if ed_message ?e \<noteq> [] then ed_message ?e else message d)\<rparr>"
    assume x: "find (\<lambda>d. stripeCustomerID d = c) (entries s) = Some ex \<and> \<not> saveEntryFails v"
    have "addEntry v ?e (entries s) = Inr (updateOne c ?g (entries s))"
      using assms(5) x k by (simp add: addEntry_topup)
    then have es: "entries (snd (webhook ce pf v req s)) = updateOne c ?g (entries s)"
      by (rule wh)
    have f: "filter (\<lambda>d. stripeCustomerID d = c) (updateOne c ?g (entries s)) = [?g ex]"
      using assms(8) x by (intro filter_updateOne) simp_all
    from rows_of_customer [OF assms(6), of "updateOne c ?g (entries s)" c]
    obtain rows where rows: "getLeaderboard v' (updateOne c ?g (entries s)) = Inr rows"
      "filter (\<lambda>r. stripeCustomerID r = c) rows = [toRow (?g ex)]"
      by (auto simp: f)
    have "position (toRow (?g ex)) = position ex \<and> lat (toRow (?g ex)) = lat (toRow ex) \<and>
        lng (toRow (?g ex)) = lng (toRow ex)"
      by simp
    with rows show "\<exists>rows r.
        getLeaderboard v' (entries (snd (webhook ce pf v req s))) = Inr rows \<and>
        filter (\<lambda>r. stripeCustomerID r = c) rows = [r] \<and>
        position r = position ex \<and> lat r = lat (toRow ex) \<and> lng r = lng (toRow ex)"
      unfolding es by blast
  qed
qed

theorem coordinates_round_trip_witness:
  "(\<exists>rows r. getLeaderboard ok_env (entries (snd (webhook Inr Some ok_env ev1 empty_db))) = Inr rows \<and>
      filter (\<lambda>r. stripeCustomerID r = ''p1'') rows = [r] \<and>
      position r = Some \<lparr>ptype = ''Point'', coordinates = Some [''2.35'', ''48.85'']\<rparr> \<and>
      lat r = Some ''48.85'' \<and> lng r = Some ''2.35'') \<and>
   (parse0 ''abc'' = None \<and>
    entries (snd (webhook Inr parse0 ok_env ev6 db1)) = entries db1 \<and>
    (\<exists>rows. getLeaderboard ok_env (entries (snd (webhook Inr parse0 ok_env ev6 db1))) = Inr rows \<and>
      filter (\<lambda>r. stripeCustomerID r = ''p4'') rows = [])) \<and>
   (\<exists>rows r. getLeaderboard ok_env (entries (snd (webhook Inr Some ok_env ev3 db1))) = Inr rows \<and>
      filter (\<lambda>r. stripeCustomerID r = ''p2'') rows = [r] \<and> lat r = None \<and> lng r = None) \<and>
   (\<exists>rows r. getLeaderboard ok_env (entries (snd (webhook Inr Some ok_env ev2 db1))) = Inr rows \<and>
      filter (\<lambda>r. stripeCustomerID r = ''p1'') rows = [r] \<and>
      lat r = Some ''48.85'' \<and> lng r = Some ''2.35'')"
proof -
  have r: "\<And>e. (Inr :: event \<Rightarrow> string + event) e = Inr e" by simp
  have env: "\<not> findEventFails ok_env" "\<not> findEntryFails ok_env" "\<not> findAllFails ok_env"
    "\<not> createEntryFails ok_env" "\<not> saveEntryFails ok_env"
    by (simp_all add: ok_env_def)
  have a: "\<exists>rows r. getLeaderboard ok_env (entries (snd (webhook Inr Some ok_env ev1 empty_db))) = Inr rows \<and>
      filter (\<lambda>r. stripeCustomerID r = ''p1'') rows = [r] \<and>
      position r = Some \<lparr>ptype = ''Point'', coordinates = Some [''2.35'', ''48.85'']\<rparr> \<and>
      lat r = Some ''48.85'' \<and> lng r = Some ''2.35''"
  proof -
    have h: "event_type ev1 = ''checkout.session.completed''"
      "event_id ev1 \<notin> set (processedEvents (empty_db :: string db))"
      "md_stripeCustomerID (session_metadata (data_object ev1)) = Some ''p1''"
      "distinct (map stripeCustomerID (entries (empty_db :: string db)))"
      by (simp_all add: ev1_def empty_db_def)
    have n: "''p1'' \<notin> stripeCustomerID ` set (entries (empty_db :: string db)) \<and> ''p1'' \<noteq> [] \<and>
        \<not> createEntryFails ok_env \<and>
        truthy (md_name (session_metadata (data_object ev1))) \<and>
        truthy (md_locationLabel (session_metadata (data_object ev1)))"
      by (simp add: ev1_def empty_db_def ok_env_def truthy_def)
    have l: "md_lat (session_metadata (data_object ev1)) = Some ''48.85'' \<and>
        md_lng (session_metadata (data_object ev1)) = Some ''2.35'' \<and>
        ''48.85'' \<noteq> [] \<and> ''2.35'' \<noteq> [] \<and>
        Some ''48.85'' = Some ''48.85'' \<and> Some ''2.35'' = Some ''2.35''"
      by (simp add: ev1_def)
    from coordinates_round_trip [where ce = Inr and pf = Some and req = ev1 and s = empty_db
        and v = ok_env and v' = ok_env, OF r h(1) env(1) h(2) env(2) env(3) h(3) h(4),
        THEN conjunct1, rule_format, OF n, THEN conjunct1, rule_format,
        where la = "''48.85''" and lo = "''2.35''" and x = "''2.35''" and y = "''48.85''", OF l]
    show ?thesis .
  qed
  have b: "parse0 ''abc'' = None \<and>
    entries (snd (webhook Inr parse0 ok_env ev6 db1)) = entries db1 \<and>
    (\<exists>rows. getLeaderboard ok_env (entries (snd (webhook Inr parse0 ok_env ev6 db1))) = Inr rows \<and>
      filter (\<lambda>r. stripeCustomerID r = ''p4'') rows = [])"
  proof -
    have h: "event_type ev6 = ''checkout.session.completed''"
      "event_id ev6 \<notin> set (processedEvents db1)"
      "md_stripeCustomerID (session_metadata (data_object ev6)) = Some ''p4''"
      "distinct (map stripeCustomerID (entries db1))"
      by (simp_all add: ev6_def db1_def)
    have n: "''p4'' \<notin> stripeCustomerID ` set (entries db1) \<and> ''p4'' \<noteq> [] \<and>
        \<not> createEntryFails ok_env \<and>
        truthy (md_name (session_metadata (data_object ev6))) \<and>
        truthy (md_locationLabel (session_metadata (data_object ev6)))"
      by (simp add: ev6_def db1_def ok_env_def truthy_def)
    have p: "parse0 ''abc'' = None"
      by (simp add: parse0_def)
    have l: "md_lat (session_metadata (data_object ev6)) = Some ''abc'' \<and>
        md_lng (session_metadata (data_object ev6)) = Some ''2.35'' \<and>
        ''abc'' \<noteq> [] \<and> ''2.35'' \<noteq> [] \<and> (parse0 ''abc'' = None \<or> parse0 ''2.35'' = None)"
      by (simp add: ev6_def p)
    from coordinates_round_trip [where ce = Inr and pf = parse0 and req = ev6 and s = db1
        and v = ok_env and v' = ok_env, OF r h(1) env(1) h(2) env(2) env(3) h(3) h(4),
        THEN conjunct1, rule_format, OF n, THEN conjunct2, THEN conjunct1, rule_format,
        where la = "''abc''" and lo = "''2.35''", OF l] p
    show ?thesis by blast
  qed
  have c: "\<exists>rows r. getLeaderboard ok_env (entries (snd (webhook Inr Some ok_env ev3 db1))) = Inr rows \<and>
      filter (\<lambda>r. stripeCustomerID r = ''p2'') rows = [r] \<and> lat r = None \<and> lng r = None"
  proof -
    have h: "event_type ev3 = ''checkout.session.completed''"
      "event_id ev3 \<notin> set (processedEvents db1)"
      "md_stripeCustomerID (session_metadata (data_object ev3)) = Some ''p2''"
      "distinct (map stripeCustomerID (entries db1))"
      by (simp_all add: ev3_def db1_def)
    have n: "''p2'' \<notin> stripeCustomerID ` set (entries db1) \<and> ''p2'' \<noteq> [] \<and>
        \<not> createEntryFails ok_env \<and>
        truthy (md_name (session_metadata (data_object ev3))) \<and>
        truthy (md_locationLabel (session_metadata (data_object ev3)))"
      by (simp add: ev3_def db1_def ok_env_def truthy_def)
    have l: "\<not> truthy (md_lat (session_metadata (data_object ev3))) \<or>
        \<not> truthy (md_lng (session_metadata (data_object ev3)))"
      by (simp add: ev3_def truthy_def)
    from coordinates_round_trip [where ce = Inr and pf = Some and req = ev3 and s = db1
        and v = ok_env and v' = ok_env, OF r h(1) env(1) h(2) env(2) env(3) h(3) h(4),
        THEN conjunct1, rule_format, OF n, THEN conjunct2, THEN conjunct2, rule_format, OF l]
    show ?thesis .
  qed
  have d: "\<exists>rows r. getLeaderboard ok_env (entries (snd (webhook Inr Some ok_env ev2 db1))) = Inr rows \<and>
      filter (\<lambda>r. stripeCustomerID r = ''p1'') rows = [r] \<and>
      lat r = Some ''48.85'' \<and> lng r = Some ''2.35''"
  proof -
    let ?ex = "\<lparr>name = ''Ann'', amount = 1000, message = ''hi'', locationLabel = ''Paris'',
       position = Some \<lparr>ptype = ''Point'', coordinates = Some [''2.35'', ''48.85'']\<rparr>,
       createdAt = 1000, stripeCustomerID = ''p1''\<rparr>"
    have h: "event_type ev2 = ''checkout.session.completed''"
      "event_id ev2 \<notin> set (processedEvents db1)"
      "md_stripeCustomerID (session_metadata (data_object ev2)) = Some ''p1''"
      "distinct (map stripeCustomerID (entries db1))"
      by (simp_all add: ev2_def db1_def)
    have f: "find (\<lambda>d. stripeCustomerID d = ''p1'') (entries db1) = Some ?ex \<and>
        \<not> saveEntryFails ok_env"
      by (simp add: db1_def ok_env_def)
    have t: "lat (toRow ?ex) = Some ''48.85''" "lng (toRow ?ex) = Some ''2.35''"
      by (simp_all add: index_at_def)
    from coordinates_round_trip [where ce = Inr and pf = Some and req = ev2 and s = db1
        and v = ok_env and v' = ok_env, OF r h(1) env(1) h(2) env(2) env(3) h(3) h(4),
        THEN conjunct2, rule_format, OF f]
    obtain rows r where
      "getLeaderboard ok_env (entries (snd (webhook Inr Some ok_env ev2 db1))) = Inr rows"
      "filter (\<lambda>r. stripeCustomerID r = ''p1'') rows = [r]"
      "lat r = lat (toRow ?ex)" "lng r = lng (toRow ?ex)"
      by blast
    with t show ?thesis by auto
  qed
  from a b c d show ?thesis by blast
qed

text \<open>
  The claim as stated fails: the second payment of customer p1 submits the coordinates
  41.90 and 12.50, and the read API returns 48.85 and 2.35, those of the first payment.
\<close>

theorem coordinates_round_trip_counterexample:
  "md_lat (session_metadata (data_object ev2)) = Some ''41.90'' \<and>
   md_lng (session_metadata (data_object ev2)) = Some ''12.50'' \<and>
   getLeaderboard ok_env (entries (snd (webhook Inr Some ok_env ev2 db1))) =
     Inr [\<lparr>name = ''Ann'', amount = 1500, message = ''yo'', locationLabel = ''Paris'',
       position = Some \<lparr>ptype = ''Point'', coordinates = Some [''2.35'', ''48.85'']\<rparr>,
       createdAt = 1000, stripeCustomerID = ''p1'',
       lat = Some ''48.85'', lng = Some ''2.35''\<rparr>]"
  by (simp add: webhook_def ProcessedEvent_findOne_def ProcessedEvent_create_def
      required_def truthy_def addEntry_def addEntry_try_def addEntry_write_def
      Entry_findOne_def Entry_save_def entryData_of_def ok_env_def ev2_def db1_def Let_def
      js_plus_def js_over_def double_examples
      getLeaderboard_def Entry_find_sort_createdAt_def toRow_def entry.defs index_at_def)

section \<open>Two payments of one payer\<close>

text \<open>
  Claim C3, as amended. \<^verbatim>\<open>addEntry\<close> reads the entry with \<^verbatim>\<open>findOne\<close> and writes
  it back with \<^verbatim>\<open>save\<close> (or inserts it with \<^verbatim>\<open>create\<close>): two storage round trips,
  not one atomic add. Take the two calls for the events of one payer, with amounts
  \<open>a\<close> and \<open>b\<close>, run one after the other without storage failure. Both return. For a
  payer whose total is \<open>t\<close>, the total is then \<open>(t + a) + b\<close> when the call for \<open>a\<close>
  runs first and \<open>(t + b) + a\<close> when the call for \<open>b\<close> runs first, each sum rounded
  to a double. For a payer without an entry, when the event of the call that runs first
  passes the validation of the schema, the total is then \<open>a + b\<close>, rounded to a double.
\<close>

theorem sequential_additivity:
  assumes "\<not> findEntryFails v" and "\<not> saveEntryFails v" and "\<not> createEntryFails v"
    and "ed_stripeCustomerID a = Some c" and "ed_stripeCustomerID b = Some c"
  shows "(\<forall>t. totalAmount c es = Some t \<longrightarrow>
            (\<exists>es'. run_calls v [False, False, True, True] (Calling a, Calling b, es) =
                 (Returned, Returned, es') \<and>
               totalAmount c es' = Some (js_plus (js_plus t (ed_amount a)) (ed_amount b))) \<and>
            (\<exists>es'. run_calls v [True, True, False, False] (Calling a, Calling b, es) =
                 (Returned, Returned, es') \<and>
               totalAmount c es' = Some (js_plus (js_plus t (ed_amount b)) (ed_amount a)))) \<and>
         (totalAmount c es = None \<and> (\<exists>d. Entry_new (now v) a = Inr d) \<longrightarrow>
            (\<exists>es'. run_calls v [False, False, True, True] (Calling a, Calling b, es) =
                 (Returned, Returned, es') \<and>
               totalAmount c es' = Some (js_plus (ed_amount a) (ed_amount b)))) \<and>
         (totalAmount c es = None \<and> (\<exists>d. Entry_new (now v) b = Inr d) \<longrightarrow>
            (\<exists>es'. run_calls v [True, True, False, False] (Calling a, Calling b, es) =
                 (Returned, Returned, es') \<and>
               totalAmount c es' = Some (js_plus (ed_amount b) (ed_amount a))))"
proof -
  have ab: "\<exists>es'. run_calls v [False, False, True, True] (Calling a, Calling b, es) =
        (Returned, Returned, es') \<and> totalAmount c es' = Some (js_plus u (ed_amount b))"
    if "addEntry v a es = Inr ea" "totalAmount c ea = Some u" for ea u
  proof -
    from addEntry_topup_total [OF assms(1,2,5) that(2)]
    obtain eab where eab: "addEntry v b ea = Inr eab"
      "totalAmount c eab = Some (js_plus u (ed_amount b))"
      by blast
    have "run_calls v [False, False, True, True] (Calling a, Calling b, es) =
        (Returned, Returned, eab)"
      by (subst run_calls_first, subst run_calls_second) (simp add: that(1) eab(1))
    with eab(2) show ?thesis by blast
  qed
  have ba: "\<exists>es'. run_calls v [True, True, False, False] (Calling a, Calling b, es) =
        (Returned, Returned, es') \<and> totalAmount c es' = Some (js_plus u (ed_amount a))"
    if "addEntry v b es = Inr eb" "totalAmount c eb = Some u" for eb u
  proof -
    from addEntry_topup_total [OF assms(1,2,4) that(2)]
    obtain eba where eba: "addEntry v a eb = Inr eba"
      "totalAmount c eba = Some (js_plus u (ed_amount a))"
      by blast
    have "run_calls v [True, True, False, False] (Calling a, Calling b, es) =
        (Returned, Returned, eba)"
      by (subst run_calls_second, subst run_calls_first) (simp add: that(1) eba(1))
    with eba(2) show ?thesis by blast
  qed
  show ?thesis
  proof (intro conjI allI impI)
    fix t
    assume t: "totalAmount c es = Some t"
    from addEntry_topup_total [OF assms(1,2,4) t]
    obtain ea where "addEntry v a es = Inr ea" "totalAmount c ea = Some (js_plus t (ed_amount a))"
      by blast
    then show "\<exists>es'. run_calls v [False, False, True, True] (Calling a, Calling b, es) =
        (Returned, Returned, es') \<and>
        totalAmount c es' = Some (js_plus (js_plus t (ed_amount a)) (ed_amount b))"
      by (rule ab)
    from addEntry_topup_total [OF assms(1,2,5) t]
    obtain eb where "addEntry v b es = Inr eb" "totalAmount c eb = Some (js_plus t (ed_amount b))"
      by blast
    then show "\<exists>es'. run_calls v [True, True, False, False] (Calling a, Calling b, es) =
        (Returned, Returned, es') \<and>
        totalAmount c es' = Some (js_plus (js_plus t (ed_amount b)) (ed_amount a))"
      by (rule ba)
  next
    assume "totalAmount c es = None \<and> (\<exists>d. Entry_new (now v) a = Inr d)"
    then obtain d where n: "totalAmount c es = None" and d: "Entry_new (now v) a = Inr d"
      by blast
    from addEntry_create_total [OF assms(1,3,4) n d]
    obtain ea where "addEntry v a es = Inr ea" "totalAmount c ea = Some (ed_amount a)"
      by blast
    then show "\<exists>es'. run_calls v [False, False, True, True] (Calling a, Calling b, es) =
        (Returned, Returned, es') \<and>
        totalAmount c es' = Some (js_plus (ed_amount a) (ed_amount b))"
      by (rule ab)
  next
    assume "totalAmount c es = None \<and> (\<exists>d. Entry_new (now v) b = Inr d)"
    then obtain d where n: "totalAmount c es = None" and d: "Entry_new (now v) b = Inr d"
      by blast
    from addEntry_create_total [OF assms(1,3,5) n d]
    obtain eb where "addEntry v b es = Inr eb" "totalAmount c eb = Some (ed_amount b)"
      by blast
    then show "\<exists>es'. run_calls v [True, True, False, False] (Calling a, Calling b, es) =
        (Returned, Returned, es') \<and>
        totalAmount c es' = Some (js_plus (ed_amount b) (ed_amount a))"
      by (rule ba)
  qed
qed

theorem sequential_additivity_witness:
  "(\<exists>es'. run_calls ok_env [False, False, True, True]
             (Calling (entryData_of Some ev2), Calling (entryData_of Some ev4), entries db1) =
              (Returned, Returned, es') \<and>
          totalAmount ''p1'' es' = Some 1800) \<and>
   (\<exists>es'. run_calls ok_env [True, True, False, False]
             (Calling (entryData_of Some ev2), Calling (entryData_of Some ev4), entries db1) =
              (Returned, Returned, es') \<and>
          totalAmount ''p1'' es' = Some 1800) \<and>
   (\<exists>es'. run_calls ok_env [False, False, True, True]
             (Calling (entryData_of Some ev1), Calling (entryData_of Some ev2), []) =
              (Returned, Returned, es') \<and>
          totalAmount ''p1'' es' = Some 1500) \<and>
   (\<exists>es'. run_calls ok_env [True, True, False, False]
             (Calling (entryData_of Some ev1), Calling (entryData_of Some ev2), []) =
              (Returned, Returned, es') \<and>
          totalAmount ''p1'' es' = Some 1500)"
proof -
  let ?e1 = "entryData_of Some ev1 :: string entryData"
  let ?e2 = "entryData_of Some ev2 :: string entryData"
  let ?e4 = "entryData_of Some ev4 :: string entryData"
  have h: "\<not> findEntryFails ok_env" "\<not> saveEntryFails ok_env" "\<not> createEntryFails ok_env"
    by (simp_all add: ok_env_def)
  have k: "ed_stripeCustomerID ?e1 = Some ''p1''" "ed_stripeCustomerID ?e2 = Some ''p1''"
    "ed_stripeCustomerID ?e4 = Some ''p1''"
    by (simp_all add: entryData_of_def ev1_def ev2_def ev4_def Let_def)
  have am: "ed_amount ?e1 = 1000" "ed_amount ?e2 = 500" "ed_amount ?e4 = 300"
    by (simp_all add: entryData_of_def ev1_def ev2_def ev4_def Let_def js_over_def
        double_examples)
  have s: "js_plus 1000 500 = 1500" "js_plus 1500 300 = 1800"
    "js_plus 1000 300 = 1300" "js_plus 1300 500 = 1800" "js_plus 500 1000 = 1500"
    by (simp_all add: js_plus_def double_examples)
  have t1: "totalAmount ''p1'' (entries db1) = Some 1000"
    by (simp add: totalAmount_def db1_def)
  have t0: "totalAmount ''p1'' ([] :: string entry list) = None"
    by (simp add: totalAmount_def)
  have v1: "totalAmount ''p1'' ([] :: string entry list) = None \<and>
      (\<exists>d. Entry_new (now ok_env) ?e1 = Inr d)"
    and v2: "totalAmount ''p1'' ([] :: string entry list) = None \<and>
      (\<exists>d. Entry_new (now ok_env) ?e2 = Inr d)"
    by (simp_all add: t0 Entry_new_def cast_position_def entryData_of_def ev1_def ev2_def Let_def)
  note A = sequential_additivity [OF h k(2) k(3), of "entries db1", THEN conjunct1,
      rule_format, OF t1, unfolded am s]
  note B = sequential_additivity [OF h k(1) k(2), of "[]", THEN conjunct2, THEN conjunct1,
      rule_format, OF v1, unfolded am s]
  note C = sequential_additivity [OF h k(1) k(2), of "[]", THEN conjunct2, THEN conjunct2,
      rule_format, OF v2, unfolded am s]
  from A B C show ?thesis by blast
qed

text \<open>
  The claim as stated fails when both calls read before either writes. For a payer
  without an entry, with amounts 1000 and 500: both calls find no entry, the first
  creates it, the second is rejected by the unique index, and the total is 1000. For a
  payer whose total is 1000, with amounts 500 and 300: both calls read 1000, the first
  saves 1500, the second saves 1300, and the total is 1300, not 1800.
\<close>

theorem concurrent_additivity_counterexample:
  "ed_amount (entryData_of Some ev1 :: string entryData) = 1000 \<and>
   ed_amount (entryData_of Some ev2 :: string entryData) = 500 \<and>
   ed_amount (entryData_of Some ev4 :: string entryData) = 300 \<and>
   totalAmount ''p1'' (snd (snd (run_calls ok_env [False, True, False, True]
     (Calling (entryData_of Some ev1), Calling (entryData_of Some ev2), [])))) = Some 1000 \<and>
   totalAmount ''p1'' (entries db1) = Some 1000 \<and>
   totalAmount ''p1'' (snd (snd (run_calls ok_env [False, True, False, True]
     (Calling (entryData_of Some ev2), Calling (entryData_of Some ev4), entries db1)))) = Some 1300"
  by (simp add: totalAmount_def Entry_findOne_def addEntry_write_def Entry_create_def
      Entry_new_def cast_position_def
      Entry_save_def entryData_of_def js_plus_def js_over_def double_examples
      ok_env_def ev1_def ev2_def ev4_def db1_def Let_def)

end
